theory Spec2Isabelle
  imports Complex_Main "HOL-Library.Word"
begin

section \<open>CreateSaleDialog: strings and numbers\<close>

text \<open>
  The component \<^verbatim>\<open>CreateSaleDialog\<close> of
  \<^verbatim>\<open>src/components/inventory/CreateSaleDialog.tsx\<close> reads four collections from its
  hooks, keeps one piece of state (\<^verbatim>\<open>formData\<close>) and talks to its parent through two
  callbacks.

  A JavaScript string is a sequence of UTF-16 code units, so a string is a list of
  16-bit words here; \<open>js\<close> writes an ASCII literal as such a list.
\<close>

type_synonym code_unit = "16 word"
type_synonym jsstring = "code_unit list"

definition js :: "string \<Rightarrow> jsstring" where
  "js s = map (\<lambda>c. of_nat (of_char c)) s"

subsection \<open>JavaScript numbers\<close>

text \<open>
  A Number is an IEEE 754 binary64 value, and every quantity and price of the component
  is one. A finite Number is kept as the rational it denotes; the two zeros are one
  value here, since nothing in this component can tell them apart
  (\<^verbatim>\<open>(-0).toFixed(2)\<close> is \<^verbatim>\<open>"0.00"\<close>, both zeros are falsy, and the component never
  divides).
\<close>

datatype number = NaN | PosInf | NegInf | Finite rat

definition pow :: "rat \<Rightarrow> int \<Rightarrow> rat" where
  "pow b e = (if 0 \<le> e then b ^ nat e else 1 / b ^ nat (- e))"

text \<open>The number of binary digits of a positive integer.\<close>

function bitlen :: "int \<Rightarrow> int" where
  "bitlen n = (if n \<le> 0 then 0 else 1 + bitlen (n div 2))"
  by pat_completeness auto
termination
  by (relation "measure nat") auto

text \<open>For \<open>0 < a\<close>, the exponent \<open>e\<close> with \<open>2 ^ e \<le> a < 2 ^ (e + 1)\<close>.\<close>

definition floor_log2 :: "rat \<Rightarrow> int" where
  "floor_log2 a =
     (if 1 \<le> a then bitlen \<lfloor>a\<rfloor> - 1 else - bitlen (\<lceil>1 / a\<rceil> - 1))"

definition round_half_even :: "rat \<Rightarrow> int" where
  "round_half_even x =
     (let f = \<lfloor>x\<rfloor>; d = x - of_int f
      in if d < 1 / 2 then f else if 1 / 2 < d then f + 1
         else if even f then f else f + 1)"

text \<open>
  The Number value for a real: round to the nearest double,
  ties to the even significand, with 53 bits of precision, the least exponent
  \<open>-1022\<close> (subnormals below it) and overflow to an infinity from \<open>2 ^ 1024\<close> on.
\<close>

definition roundToDouble :: "rat \<Rightarrow> number" where
  "roundToDouble q =
     (if q = 0 then Finite 0
      else let a = \<bar>q\<bar>;
               e = max (floor_log2 a) (- 1022);
               ulp = pow 2 (e - 52);
               r = of_int (round_half_even (a / ulp)) * ulp
           in if pow 2 1024 \<le> r then (if 0 < q then PosInf else NegInf)
              else Finite (if 0 < q then r else - r))"

text \<open>
  \<^verbatim>\<open>a + b\<close>, \<^verbatim>\<open>-a\<close>, \<^verbatim>\<open>a - b\<close> (which the language defines as
  \<^verbatim>\<open>a + (-b)\<close>) and \<^verbatim>\<open>a * b\<close> on Numbers: the exact result, rounded.
\<close>

fun plus_number :: "number \<Rightarrow> number \<Rightarrow> number" where
  "plus_number NaN _ = NaN"
| "plus_number _ NaN = NaN"
| "plus_number (Finite a) (Finite b) = roundToDouble (a + b)"
| "plus_number (Finite a) PosInf = PosInf"
| "plus_number (Finite a) NegInf = NegInf"
| "plus_number PosInf (Finite b) = PosInf"
| "plus_number NegInf (Finite b) = NegInf"
| "plus_number PosInf PosInf = PosInf"
| "plus_number NegInf NegInf = NegInf"
| "plus_number PosInf NegInf = NaN"
| "plus_number NegInf PosInf = NaN"

fun uminus_number :: "number \<Rightarrow> number" where
  "uminus_number NaN = NaN"
| "uminus_number PosInf = NegInf"
| "uminus_number NegInf = PosInf"
| "uminus_number (Finite a) = Finite (- a)"

definition minus_number :: "number \<Rightarrow> number \<Rightarrow> number" where
  "minus_number a b = plus_number a (uminus_number b)"

fun times_number :: "number \<Rightarrow> number \<Rightarrow> number" where
  "times_number NaN _ = NaN"
| "times_number _ NaN = NaN"
| "times_number (Finite a) (Finite b) = roundToDouble (a * b)"
| "times_number (Finite a) PosInf = (if a = 0 then NaN else if 0 < a then PosInf else NegInf)"
| "times_number (Finite a) NegInf = (if a = 0 then NaN else if 0 < a then NegInf else PosInf)"
| "times_number PosInf (Finite b) = (if b = 0 then NaN else if 0 < b then PosInf else NegInf)"
| "times_number NegInf (Finite b) = (if b = 0 then NaN else if 0 < b then NegInf else PosInf)"
| "times_number PosInf PosInf = PosInf"
| "times_number PosInf NegInf = NegInf"
| "times_number NegInf PosInf = NegInf"
| "times_number NegInf NegInf = PosInf"

text \<open>
  \<^verbatim>\<open>a <= b\<close> and \<^verbatim>\<open>a < b\<close>: false as soon as one side is \<^verbatim>\<open>NaN\<close>.
\<close>

fun le_number :: "number \<Rightarrow> number \<Rightarrow> bool" where
  "le_number NaN _ = False"
| "le_number _ NaN = False"
| "le_number NegInf _ = True"
| "le_number _ PosInf = True"
| "le_number (Finite a) (Finite b) = (a \<le> b)"
| "le_number (Finite a) NegInf = False"
| "le_number PosInf _ = False"

definition less_number :: "number \<Rightarrow> number \<Rightarrow> bool" where
  "less_number a b = (le_number a b \<and> a \<noteq> b)"

text \<open>\<^verbatim>\<open>Math.min(a, b)\<close>: \<^verbatim>\<open>NaN\<close> if one of the two is, the smaller one otherwise.\<close>

definition min_number :: "number \<Rightarrow> number \<Rightarrow> number" where
  "min_number a b = (if a = NaN \<or> b = NaN then NaN else if le_number a b then a else b)"

text \<open>\<^verbatim>\<open>n || d\<close> on a Number: \<^verbatim>\<open>NaN\<close> and zero are falsy.\<close>

definition or_number :: "number \<Rightarrow> number \<Rightarrow> number" where
  "or_number n d = (if n = NaN \<or> n = Finite 0 then d else n)"

text \<open>An integer as a Number.\<close>

definition number_of_int :: "int \<Rightarrow> number" where
  "number_of_int i = roundToDouble (of_int i)"

section \<open>Data model\<close>

datatype status = Completed | Pending | Cancelled

text \<open>\<^verbatim>\<open>Omit<Sale, 'id'>\<close>: what \<^verbatim>\<open>onSaleCreated\<close> receives.\<close>

record saleData =
  productId :: jsstring
  productName :: jsstring
  quantity :: number
  unitPrice :: jsstring
  totalAmount :: jsstring
  date :: jsstring
  status :: status
  customerName :: jsstring
  notes' :: jsstring

text \<open>\<^verbatim>\<open>Sale\<close>: a stored sale is a \<open>saleData\<close> with its identifier.\<close>

record sale = saleData +
  id' :: jsstring

record purchase =
  productId :: jsstring
  quantity :: number

record salesReturn =
  productId :: jsstring
  returnQuantity :: number

record product =
  id' :: jsstring
  name :: jsstring
  sellPrice :: jsstring

text \<open>The state of \<^verbatim>\<open>useState\<close> (lines 25-32).\<close>

record formData =
  productId :: jsstring
  quantity :: number
  unitPrice :: jsstring
  customerName :: jsstring
  status :: status
  notes' :: jsstring

text \<open>What the four hooks return (lines 21-24).\<close>

record hooks =
  products :: "product list"
  sales :: "sale list"
  purchases :: "purchase list"
  salesReturns :: "salesReturn list"

section \<open>Stock\<close>

text \<open>
  \<^verbatim>\<open>Array.prototype.reduce\<close> with an initial value is a left fold, and
  \<^verbatim>\<open>Array.prototype.filter\<close> keeps the matching elements in order. Each
  \<^verbatim>\<open>sum + x.quantity\<close> is an addition of doubles, so the result can depend on the
  order of the records once a sum is too large to be exact.
\<close>

definition getCalculatedStock :: "hooks \<Rightarrow> jsstring \<Rightarrow> number" where
  "getCalculatedStock h pid =
     (let productSales = filter (\<lambda>sale. saleData.productId sale = pid) (sales h);
          productPurchases = filter (\<lambda>purchase. purchase.productId purchase = pid) (purchases h);
          productReturns = filter (\<lambda>returnItem. salesReturn.productId returnItem = pid) (salesReturns h);
          totalSold = foldl (\<lambda>sum sale. plus_number sum (saleData.quantity sale))
                        (Finite 0) productSales;
          totalPurchased = foldl (\<lambda>sum purchase. plus_number sum (purchase.quantity purchase))
                             (Finite 0) productPurchases;
          totalReturned = foldl (\<lambda>sum returnItem. plus_number sum (returnQuantity returnItem))
                            (Finite 0) productReturns
      in minus_number (plus_number totalPurchased totalReturned) totalSold)"

section \<open>Reading and printing numbers\<close>

definition is_digit :: "code_unit \<Rightarrow> bool" where
  "is_digit c = (0x30 \<le> c \<and> c \<le> 0x39)"

definition digit_value :: "code_unit \<Rightarrow> int" where
  "digit_value c = uint c - 0x30"

definition digits_value :: "jsstring \<Rightarrow> int" where
  "digits_value ds = foldl (\<lambda>a c. 10 * a + digit_value c) 0 ds"

text \<open>
  \<^verbatim>\<open>StrWhiteSpaceChar\<close>: the white space and line terminator code points, which
  \<^verbatim>\<open>parseInt\<close> and \<^verbatim>\<open>parseFloat\<close> skip at the start of their argument.
\<close>

definition is_white :: "code_unit \<Rightarrow> bool" where
  "is_white c =
     (c = 0x09 \<or> c = 0x0A \<or> c = 0x0B \<or> c = 0x0C \<or> c = 0x0D \<or> c = 0x20 \<or> c = 0xA0
      \<or> c = 0x1680 \<or> (0x2000 \<le> c \<and> c \<le> 0x200A) \<or> c = 0x2028 \<or> c = 0x2029
      \<or> c = 0x202F \<or> c = 0x205F \<or> c = 0x3000 \<or> c = 0xFEFF)"

text \<open>An optional sign: whether it is a minus, and the rest.\<close>

fun read_sign :: "jsstring \<Rightarrow> bool \<times> jsstring" where
  "read_sign [] = (False, [])"
| "read_sign (c # cs) =
     (if c = 0x2D then (True, cs) else if c = 0x2B then (False, cs) else (False, c # cs))"

subsection \<open>\<^verbatim>\<open>parseInt(string)\<close>, with no radix\<close>

text \<open>
  The value of a digit in a radix up to 36: \<^verbatim>\<open>0-9\<close>, then \<^verbatim>\<open>a-z\<close> or
  \<^verbatim>\<open>A-Z\<close> from ten on; \<open>None\<close> for any other code unit.
\<close>

definition radix_digit :: "code_unit \<Rightarrow> int option" where
  "radix_digit c =
     (if 0x30 \<le> c \<and> c \<le> 0x39 then Some (uint c - 0x30)
      else if 0x61 \<le> c \<and> c \<le> 0x7A then Some (uint c - 0x61 + 10)
      else if 0x41 \<le> c \<and> c \<le> 0x5A then Some (uint c - 0x41 + 10)
      else None)"

definition is_radix_digit :: "int \<Rightarrow> code_unit \<Rightarrow> bool" where
  "is_radix_digit R c = (case radix_digit c of None \<Rightarrow> False | Some d \<Rightarrow> d < R)"

definition radix_value :: "int \<Rightarrow> jsstring \<Rightarrow> int" where
  "radix_value R Z = foldl (\<lambda>a c. R * a + (case radix_digit c of None \<Rightarrow> 0 | Some d \<Rightarrow> d)) 0 Z"

text \<open>
  The steps are those of the language definition: skip leading white space, read a
  sign, strip \<^verbatim>\<open>0x\<close> or \<^verbatim>\<open>0X\<close> (the radix is then 16, otherwise 10), and read the
  longest run of digits of the radix; no digit gives \<^verbatim>\<open>NaN\<close>. The integer the digits
  denote is rounded to the nearest double.
\<close>

definition parseInt :: "jsstring \<Rightarrow> number" where
  "parseInt string =
     (let (neg, S) = read_sign (dropWhile is_white string);
          (R, S') = (case S of
                       c0 # c1 # rest \<Rightarrow>
                         if c0 = 0x30 \<and> (c1 = 0x78 \<or> c1 = 0x58) then (16, rest) else (10, S)
                     | _ \<Rightarrow> (10, S));
          Z = takeWhile (is_radix_digit R) S'
      in if Z = [] then NaN
         else roundToDouble (of_int ((if neg then - 1 else 1) * radix_value R Z)))"

subsection \<open>\<^verbatim>\<open>parseFloat(string)\<close>\<close>

text \<open>
  The exponent part after the digits: \<^verbatim>\<open>e\<close> or \<^verbatim>\<open>E\<close>, an optional sign and at least
  one digit. Anything else is not part of the number, and the exponent is zero.
\<close>

definition read_exponent :: "jsstring \<Rightarrow> int" where
  "read_exponent s =
     (case s of
        [] \<Rightarrow> 0
      | c # cs \<Rightarrow>
          if c = 0x65 \<or> c = 0x45
          then (let (neg, r) = read_sign cs; ds = takeWhile is_digit r
                in if ds = [] then 0
                   else if neg then - digits_value ds else digits_value ds)
          else 0)"

text \<open>
  The longest prefix that is a \<^verbatim>\<open>StrDecimalLiteral\<close>, after leading white space:
  a sign, then \<^verbatim>\<open>Infinity\<close>, or digits with an optional fraction and exponent
  (\<^verbatim>\<open>5.\<close> and \<^verbatim>\<open>.5\<close> are numbers, \<^verbatim>\<open>.\<close> is not). The mathematical value is
  rounded to the nearest double.
\<close>

definition parseFloat :: "jsstring \<Rightarrow> number" where
  "parseFloat string =
     (let (neg, u) = read_sign (dropWhile is_white string)
      in if take 8 u = js ''Infinity'' then (if neg then NegInf else PosInf)
         else let ip = takeWhile is_digit u;
                  r1 = dropWhile is_digit u;
                  (fp, r2) = (case r1 of
                                [] \<Rightarrow> ([], [])
                              | c # cs \<Rightarrow>
                                  if c = 0x2E then (takeWhile is_digit cs, dropWhile is_digit cs)
                                  else ([], r1))
              in if ip = [] \<and> fp = [] then NaN
                 else let mv = of_int (digits_value (ip @ fp))
                               * pow 10 (read_exponent r2 - int (length fp))
                      in roundToDouble (if neg then - mv else mv))"

subsection \<open>\<^verbatim>\<open>Number.prototype.toFixed\<close>\<close>

definition digit_char :: "int \<Rightarrow> code_unit" where
  "digit_char d = of_int (0x30 + d)"

text \<open>The decimal digits of a natural number, \<^verbatim>\<open>"0"\<close> for zero.\<close>

function decimal :: "int \<Rightarrow> jsstring" where
  "decimal n = (if n < 10 then [digit_char n] else decimal (n div 10) @ [digit_char (n mod 10)])"
  by pat_completeness auto
termination
  by (relation "measure nat") auto

definition pad_zeros :: "nat \<Rightarrow> jsstring \<Rightarrow> jsstring" where
  "pad_zeros k s = replicate (k - length s) 0x30 @ s"

text \<open>
  \<^verbatim>\<open>Number::toString\<close> of a finite double \<open>x\<close> from \<open>10 ^ 21\<close> on, which prints in
  exponent form with the fewest digits that still read back as \<open>x\<close>. With \<open>D\<close> the
  number of digits of \<open>x\<close>, \<open>digits_candidate x D k\<close> is the \<open>k\<close>-digit significand and the
  decimal exponent, if \<open>k\<close> digits suffice: of the two neighbours the one that rounds to
  \<open>x\<close>, the closer one if both do, the even one on a tie.
\<close>

definition digits_candidate :: "rat \<Rightarrow> nat \<Rightarrow> nat \<Rightarrow> (int \<times> int) option" where
  "digits_candidate x D k =
     (let p = 10 ^ (D - k);
          lo = \<lfloor>x / p\<rfloor>;
          hi = lo + 1;
          lo_ok = (roundToDouble (of_int lo * p) = Finite x);
          hi_ok = (roundToDouble (of_int hi * p) = Finite x);
          below = x - of_int lo * p;
          above = of_int hi * p - x;
          c = (if lo_ok \<and> hi_ok
               then (if below < above then lo else if above < below then hi
                     else if even lo then lo else hi)
               else if lo_ok then lo else hi)
      in if lo_ok \<or> hi_ok
         then Some (if c = 10 ^ k then (10 ^ (k - 1), int D + 1) else (c, int D))
         else None)"

fun first_candidate :: "(nat \<Rightarrow> 'a option) \<Rightarrow> nat list \<Rightarrow> 'a option" where
  "first_candidate f [] = None"
| "first_candidate f (k # ks) = (case f k of Some r \<Rightarrow> Some r | None \<Rightarrow> first_candidate f ks)"

definition toString_large :: "rat \<Rightarrow> jsstring" where
  "toString_large x =
     (let D = length (decimal \<lfloor>x\<rfloor>);
          (s, n) = (case first_candidate (digits_candidate x D) [1..<D] of
                      Some r \<Rightarrow> r
                    | None \<Rightarrow> (\<lfloor>x\<rfloor>, int D));
          ds = decimal s
      in (if length ds = 1 then ds else take 1 ds @ js ''.'' @ drop 1 ds)
         @ js ''e+'' @ decimal (n - 1))"

text \<open>
  \<^verbatim>\<open>x.toFixed(f)\<close> for \<open>f \<le> 100\<close> (the component passes 2, so the
  \<^verbatim>\<open>RangeError\<close> of a larger \<open>f\<close> cannot arise). The integer \<open>n\<close> with
  \<open>n / 10 ^ f\<close> nearest to the exact value of the double, the larger one on a tie, is
  printed with the point before its last \<open>f\<close> digits.
\<close>

definition toFixed :: "number \<Rightarrow> nat \<Rightarrow> jsstring" where
  "toFixed x f =
     (case x of
        NaN \<Rightarrow> js ''NaN''
      | PosInf \<Rightarrow> js ''Infinity''
      | NegInf \<Rightarrow> js ''-Infinity''
      | Finite q \<Rightarrow>
          (if q < 0 then js ''-'' else [])
          @ (let a = \<bar>q\<bar>
             in if 10 ^ 21 \<le> a then toString_large a
                else let n = \<lfloor>a * 10 ^ f + 1 / 2\<rfloor>;
                         m = decimal n
                     in if f = 0 then m
                        else let m' = pad_zeros (f + 1) m;
                                 k = length m'
                             in take (k - f) m' @ js ''.'' @ drop (k - f) m'))"

text \<open>
  A numeral with exactly two decimals: an optional minus sign, one digit or more, a
  point and two digits.
\<close>

definition is_fixed2 :: "jsstring \<Rightarrow> bool" where
  "is_fixed2 s =
     (let t = (case s of [] \<Rightarrow> [] | c # cs \<Rightarrow> if c = 0x2D then cs else s);
          n = length t
      in 4 \<le> n \<and> list_all is_digit (take (n - 3) t) \<and> t ! (n - 3) = 0x2E
         \<and> list_all is_digit (drop (n - 2) t))"

text \<open>
  The fixed-2-decimal string of a rational, as the specification words it: with \<open>n\<close>
  the number of hundredths nearest to its magnitude (the larger one on a tie), the sign,
  the digits of the whole part \<open>n div 100\<close>, a point and the two digits of
  \<open>n mod 100\<close>.
\<close>

definition fixed2 :: "rat \<Rightarrow> jsstring" where
  "fixed2 x =
     (let n = \<lfloor>\<bar>x\<bar> * 100 + 1 / 2\<rfloor>
      in (if x < 0 then js ''-'' else [])
         @ decimal (n div 100) @ js ''.''
         @ [digit_char (n mod 100 div 10), digit_char (n mod 10)])"

section \<open>Dates\<close>

text \<open>
  A time value is a number of milliseconds since 1 January 1970 UTC. The functions below
  are the ones the language definition gives for the fields of a time value; every
  division is a floor division, as \<open>div\<close> on \<open>int\<close> is.
\<close>

definition msPerDay :: int where
  "msPerDay = 86400000"

definition Day :: "int \<Rightarrow> int" where
  "Day t = t div msPerDay"

definition DaysInYear :: "int \<Rightarrow> int" where
  "DaysInYear y =
     (if y mod 4 \<noteq> 0 then 365 else if y mod 100 \<noteq> 0 then 366
      else if y mod 400 \<noteq> 0 then 365 else 366)"

definition DayFromYear :: "int \<Rightarrow> int" where
  "DayFromYear y =
     365 * (y - 1970) + (y - 1969) div 4 - (y - 1901) div 100 + (y - 1601) div 400"

text \<open>
  The year of a time value is the largest \<open>y\<close> whose first day is not after the day of
  \<open>t\<close>. It is computed from an estimate with the mean length of a year
  (146097 days in 400 years), which is off by one at most.
\<close>

definition YearFromTime :: "int \<Rightarrow> int" where
  "YearFromTime t =
     (let d = Day t;
          y = 1970 + (400 * d) div 146097
      in if DayFromYear (y + 1) \<le> d then y + 1
         else if DayFromYear y \<le> d then y
         else y - 1)"

definition DayWithinYear :: "int \<Rightarrow> int" where
  "DayWithinYear t = Day t - DayFromYear (YearFromTime t)"

definition InLeapYear :: "int \<Rightarrow> int" where
  "InLeapYear t = (if DaysInYear (YearFromTime t) = 366 then 1 else 0)"

definition MonthFromTime :: "int \<Rightarrow> int" where
  "MonthFromTime t =
     (let d = DayWithinYear t; l = InLeapYear t
      in if d < 31 then 0
         else if d < 59 + l then 1
         else if d < 90 + l then 2
         else if d < 120 + l then 3
         else if d < 151 + l then 4
         else if d < 181 + l then 5
         else if d < 212 + l then 6
         else if d < 243 + l then 7
         else if d < 273 + l then 8
         else if d < 304 + l then 9
         else if d < 334 + l then 10
         else 11)"

definition DateFromTime :: "int \<Rightarrow> int" where
  "DateFromTime t =
     (let d = DayWithinYear t; l = InLeapYear t; m = MonthFromTime t
      in if m = 0 then d + 1
         else if m = 1 then d - 30
         else if m = 2 then d - 58 - l
         else if m = 3 then d - 89 - l
         else if m = 4 then d - 119 - l
         else if m = 5 then d - 150 - l
         else if m = 6 then d - 180 - l
         else if m = 7 then d - 211 - l
         else if m = 8 then d - 242 - l
         else if m = 9 then d - 272 - l
         else if m = 10 then d - 303 - l
         else d - 333 - l)"

definition HourFromTime :: "int \<Rightarrow> int" where
  "HourFromTime t = (t div 3600000) mod 24"

definition MinFromTime :: "int \<Rightarrow> int" where
  "MinFromTime t = (t div 60000) mod 60"

definition SecFromTime :: "int \<Rightarrow> int" where
  "SecFromTime t = (t div 1000) mod 60"

definition msFromTime :: "int \<Rightarrow> int" where
  "msFromTime t = t mod 1000"

text \<open>
  The year of an ISO string: four digits from 0 to 9999, and a sign with six digits for
  any other year.
\<close>

definition iso_year :: "int \<Rightarrow> jsstring" where
  "iso_year y =
     (if 0 \<le> y \<and> y \<le> 9999 then pad_zeros 4 (decimal y)
      else (if y < 0 then js ''-'' else js ''+'') @ pad_zeros 6 (decimal \<bar>y\<bar>))"

text \<open>
  \<^verbatim>\<open>Date.prototype.toISOString\<close> of a date with time value \<open>t\<close>. It reads the fields
  of \<open>t\<close> itself, that is in UTC. (\<^verbatim>\<open>new Date()\<close> is always a valid date, so the
  \<^verbatim>\<open>RangeError\<close> for an invalid one cannot arise.)
\<close>

definition toISOString :: "int \<Rightarrow> jsstring" where
  "toISOString t =
     iso_year (YearFromTime t) @ js ''-''
     @ pad_zeros 2 (decimal (MonthFromTime t + 1)) @ js ''-''
     @ pad_zeros 2 (decimal (DateFromTime t)) @ js ''T''
     @ pad_zeros 2 (decimal (HourFromTime t)) @ js '':''
     @ pad_zeros 2 (decimal (MinFromTime t)) @ js '':''
     @ pad_zeros 2 (decimal (SecFromTime t)) @ js ''.''
     @ pad_zeros 3 (decimal (msFromTime t)) @ js ''Z''"

text \<open>\<^verbatim>\<open>s.split(sep)[0]\<close> for a separator of one code unit: what stands before its
  first occurrence, or all of \<open>s\<close> when there is none.\<close>

definition split_first :: "code_unit \<Rightarrow> jsstring \<Rightarrow> jsstring" where
  "split_first sep s = takeWhile (\<lambda>c. c \<noteq> sep) s"

text \<open>
  A calendar date written \<^verbatim>\<open>YYYY-MM-DD\<close>: four digits, a hyphen, two digits, a hyphen
  and two digits.
\<close>

definition is_YYYY_MM_DD :: "jsstring \<Rightarrow> bool" where
  "is_YYYY_MM_DD s =
     (length s = 10 \<and> list_all is_digit (take 4 s) \<and> s ! 4 = 0x2D
      \<and> list_all is_digit (take 2 (drop 5 s)) \<and> s ! 7 = 0x2D
      \<and> list_all is_digit (drop 8 s))"

text \<open>
  The UTC calendar date of a time value in that form, as the specification words it:
  year, month (counted from 1) and day of the month, padded with zeros to four, two and
  two digits.
\<close>

definition utcCalendarDate :: "int \<Rightarrow> jsstring" where
  "utcCalendarDate t =
     pad_zeros 4 (decimal (YearFromTime t)) @ js ''-''
     @ pad_zeros 2 (decimal (MonthFromTime t + 1)) @ js ''-''
     @ pad_zeros 2 (decimal (DateFromTime t))"

text \<open>
  The host's clock when a handler runs: the time value \<^verbatim>\<open>new Date()\<close> gets, and the
  offset of the local time zone in minutes.
\<close>

record clock =
  now :: int
  timezoneOffset :: int

section \<open>The component\<close>

text \<open>The initial state (lines 25-32), which is also what a submit resets to.\<close>

definition initialFormData :: formData where
  "initialFormData =
     \<lparr>productId = [], quantity = Finite 1, unitPrice = [], customerName = [],
      status = Completed, notes' = []\<rparr>"

subsection \<open>Derived values (lines 47-51)\<close>

text \<open>\<^verbatim>\<open>Array.prototype.find\<close> is \<open>find\<close>: the first match, or \<open>None\<close> for
  \<^verbatim>\<open>undefined\<close>. An empty string is falsy.\<close>

definition selectedProduct :: "hooks \<Rightarrow> formData \<Rightarrow> product option" where
  "selectedProduct h formData = find (\<lambda>p. id' p = productId formData) (products h)"

definition unitPrice' :: "formData \<Rightarrow> number" where
  "unitPrice' formData =
     (if unitPrice formData \<noteq> [] then parseFloat (unitPrice formData) else Finite 0)"

definition totalAmount' :: "formData \<Rightarrow> number" where
  "totalAmount' formData = times_number (unitPrice' formData) (quantity formData)"

definition availableStock :: "hooks \<Rightarrow> formData \<Rightarrow> number" where
  "availableStock h formData =
     (case selectedProduct h formData of
        Some p \<Rightarrow> getCalculatedStock h (id' p)
      | None \<Rightarrow> Finite 0)"

definition isQuantityValid :: "hooks \<Rightarrow> formData \<Rightarrow> bool" where
  "isQuantityValid h formData = le_number (quantity formData) (availableStock h formData)"

text \<open>The \<^verbatim>\<open>disabled\<close> attribute of the submit button (line 224).\<close>

definition submitDisabled :: "hooks \<Rightarrow> formData \<Rightarrow> bool" where
  "submitDisabled h formData =
     (productId formData = [] \<or> unitPrice formData = [] \<or> \<not> isQuantityValid h formData)"

subsection \<open>Handlers\<close>

text \<open>
  A handler does not return a value: it calls \<^verbatim>\<open>setFormData\<close>, the two callbacks of
  the parent and \<^verbatim>\<open>preventDefault\<close>. It is modelled by the list of these calls, in the
  order it makes them. The only way a handler could throw is by reading a property of
  \<^verbatim>\<open>undefined\<close>.

  The handlers are modelled as the component defines them. What the input widgets and
  the browser do on their own with the attributes of the quantity input (\<^verbatim>\<open>min\<close>,
  \<^verbatim>\<open>max\<close>, \<^verbatim>\<open>required\<close>) is outside the component and not part of the model.
\<close>

datatype effect =
    PreventDefault
  | OnSaleCreated saleData
  | OnOpenChange bool
  | SetFormData formData

datatype error = TypeError

text \<open>\<^verbatim>\<open>s.replace(/[$\<dots>]/g, '')\<close> with the dollar sign (U+0024) and the taka sign
  (U+09F3) in the class: every match is replaced by nothing.\<close>

fun replace_currency :: "jsstring \<Rightarrow> jsstring" where
  "replace_currency [] = []"
| "replace_currency (c # cs) =
     (if c = 0x24 \<or> c = 0x09F3 then replace_currency cs else c # replace_currency cs)"

definition handleProductChange :: "hooks \<Rightarrow> formData \<Rightarrow> jsstring \<Rightarrow> effect list" where
  "handleProductChange h formData pid =
     (let product = find (\<lambda>p. id' p = pid) (products h)
      in [SetFormData
            (formData
               \<lparr>productId := pid,
                unitPrice := (case product of
                                Some p \<Rightarrow> replace_currency (sellPrice p)
                              | None \<Rightarrow> []),
                quantity := Finite 1\<rparr>)])"

definition handleQuantityChange :: "hooks \<Rightarrow> formData \<Rightarrow> jsstring \<Rightarrow> effect list" where
  "handleQuantityChange h formData v =
     (let newQuantity = or_number (parseInt v) (Finite 1)
      in [SetFormData
            (formData\<lparr>quantity := min_number newQuantity (availableStock h formData)\<rparr>)])"

text \<open>The record \<^verbatim>\<open>saleData\<close> of lines 75-85, for the selected product \<open>p\<close>.\<close>

definition saleData' :: "clock \<Rightarrow> formData \<Rightarrow> product \<Rightarrow> saleData" where
  "saleData' clk formData p =
     \<lparr>saleData.productId = productId formData,
      saleData.productName = name p,
      saleData.quantity = quantity formData,
      saleData.unitPrice = toFixed (parseFloat (unitPrice formData)) 2,
      saleData.totalAmount = toFixed (totalAmount' formData) 2,
      saleData.date = split_first 0x54 (toISOString (now clk)),
      saleData.status = status formData,
      saleData.customerName = customerName formData,
      saleData.notes' = notes' formData\<rparr>"

text \<open>
  \<^verbatim>\<open>handleSubmit\<close> (lines 71-97). Reading \<^verbatim>\<open>selectedProduct.name\<close> would throw a
  \<^verbatim>\<open>TypeError\<close> if no product were selected.
\<close>

definition handleSubmit :: "hooks \<Rightarrow> clock \<Rightarrow> formData \<Rightarrow> error + effect list" where
  "handleSubmit h clk formData =
     (if selectedProduct h formData = None \<or> unitPrice formData = []
         \<or> \<not> isQuantityValid h formData
      then Inr [PreventDefault]
      else case selectedProduct h formData of
             None \<Rightarrow> Inl TypeError
           | Some p \<Rightarrow>
               Inr [PreventDefault,
                    OnSaleCreated (saleData' clk formData p),
                    OnOpenChange False,
                    SetFormData initialFormData])"



text \<open>The state after a handler has run: the argument of its last \<^verbatim>\<open>setFormData\<close>.\<close>

fun stateAfter :: "formData \<Rightarrow> effect list \<Rightarrow> formData" where
  "stateAfter formData [] = formData"
| "stateAfter formData (SetFormData v # es) = stateAfter v es"
| "stateAfter formData (_ # es) = stateAfter formData es"

text \<open>The records handed to \<^verbatim>\<open>onSaleCreated\<close>, and the arguments of
  \<^verbatim>\<open>onOpenChange\<close>.\<close>

fun emitted :: "effect list \<Rightarrow> saleData list" where
  "emitted [] = []"
| "emitted (OnSaleCreated s # es) = s # emitted es"
| "emitted (_ # es) = emitted es"

fun openChanges :: "effect list \<Rightarrow> bool list" where
  "openChanges [] = []"
| "openChanges (OnOpenChange b # es) = b # openChanges es"
| "openChanges (_ # es) = openChanges es"


section \<open>Example data\<close>

text \<open>
  Three products: \<^verbatim>\<open>A\<close> with purchases of 30 and 20, a return of 2 and a sale of 10;
  \<^verbatim>\<open>B\<close> with no record at all; \<^verbatim>\<open>C\<close> with a sale of 1 and nothing bought.
\<close>

definition exampleHooks :: hooks where
  "exampleHooks =
     \<lparr>products =
        [\<lparr>id' = js ''A'', name = js ''Widget'', sellPrice = js ''$19.999''\<rparr>,
         \<lparr>id' = js ''B'', name = js ''Gadget'', sellPrice = 0x09F3 # js ''500''\<rparr>,
         \<lparr>id' = js ''C'', name = js ''Gizmo'', sellPrice = js ''$7.50''\<rparr>],
      sales =
        [\<lparr>saleData.productId = js ''A'', saleData.productName = js ''Widget'',
          saleData.quantity = Finite 10, saleData.unitPrice = js ''20.00'',
          saleData.totalAmount = js ''200.00'', saleData.date = js ''2024-01-15'',
          saleData.status = Completed, saleData.customerName = [], saleData.notes' = [],
          sale.id' = js ''S1''\<rparr>,
         \<lparr>saleData.productId = js ''C'', saleData.productName = js ''Gizmo'',
          saleData.quantity = Finite 1, saleData.unitPrice = js ''7.50'',
          saleData.totalAmount = js ''7.50'', saleData.date = js ''2024-02-01'',
          saleData.status = Pending, saleData.customerName = js ''Rahim'',
          saleData.notes' = [], sale.id' = js ''S2''\<rparr>],
      purchases =
        [\<lparr>purchase.productId = js ''A'', purchase.quantity = Finite 30\<rparr>,
         \<lparr>purchase.productId = js ''A'', purchase.quantity = Finite 20\<rparr>],
      salesReturns =
        [\<lparr>salesReturn.productId = js ''A'', returnQuantity = Finite 2\<rparr>]\<rparr>"

definition exampleForm :: "string \<Rightarrow> rat \<Rightarrow> string \<Rightarrow> formData" where
  "exampleForm pid q price =
     \<lparr>productId = js pid, quantity = Finite q, unitPrice = js price,
      customerName = js ''Karim'', status = Pending, notes' = js ''gift''\<rparr>"

definition exampleClock :: clock where
  "exampleClock = \<lparr>now = 1730592000000, timezoneOffset = - 360\<rparr>"

text \<open>The first millisecond of the year 10000, and a clock that shows it.\<close>

definition year10000Clock :: clock where
  "year10000Clock = \<lparr>now = 253402300800000, timezoneOffset = 0\<rparr>"

text \<open>
  A product with two purchases, of \<open>2 ^ 53 = 9007199254740992\<close> units and of one unit, and
  nothing else.
\<close>

definition largeStockHooks :: hooks where
  "largeStockHooks =
     \<lparr>products = [\<lparr>id' = js ''A'', name = js ''Widget'', sellPrice = js ''$19.999''\<rparr>],
      sales = [],
      purchases =
        [\<lparr>purchase.productId = js ''A'', purchase.quantity = Finite 9007199254740992\<rparr>,
         \<lparr>purchase.productId = js ''A'', purchase.quantity = Finite 1\<rparr>],
      salesReturns = []\<rparr>"

text \<open>
  A product whose sell price is written with a euro sign (U+20AC), which
  \<^verbatim>\<open>handleProductChange\<close> does not strip, with a purchase of 5 units.
\<close>

definition euroHooks :: hooks where
  "euroHooks =
     \<lparr>products = [\<lparr>id' = js ''E'', name = js ''Import'', sellPrice = 0x20AC # js ''7.50''\<rparr>],
      sales = [],
      purchases = [\<lparr>purchase.productId = js ''E'', purchase.quantity = Finite 5\<rparr>],
      salesReturns = []\<rparr>"

definition euroForm :: formData where
  "euroForm = initialFormData\<lparr>productId := js ''E'', unitPrice := 0x20AC # js ''7.50''\<rparr>"


section \<open>Facts about the model\<close>

subsection \<open>Strings\<close>

lemma js_Nil: "js [] = []"
  by (simp add: js_def)

lemma js_Cons: "js (c # cs) = of_nat (of_char c) # js cs"
  by (simp add: js_def)

lemmas js_eval = js_Nil js_Cons

subsection \<open>Doubles\<close>

text \<open>
  \<open>floor_log2\<close> is the binary exponent of a positive rational, and every integer up to
  \<open>2 ^ 53\<close> in magnitude is a double: \<open>roundToDouble\<close> leaves it as it is, so sums of
  integers are exact as long as they stay in that range.
\<close>

declare bitlen.simps [simp del]

lemma bitlen_0: "bitlen 0 = 0"
  by (subst bitlen.simps) simp

lemma bitlen_1: "bitlen 1 = 1"
  by (simp add: bitlen.simps [of 1] bitlen_0)

lemma bitlen_numeral: "bitlen (numeral k) = 1 + bitlen (numeral k div 2)"
  by (subst bitlen.simps) simp

lemma bitlen_nonneg: "0 \<le> bitlen n"
proof (induction n rule: bitlen.induct)
  case (1 n)
  then show ?case
    by (subst bitlen.simps) simp
qed

lemma bitlen_pos: "0 < n \<Longrightarrow> 1 \<le> bitlen n"
  using bitlen_nonneg [of "n div 2"] by (subst bitlen.simps) simp

lemma bitlen_bounds:
  "0 < n \<Longrightarrow> 2 ^ nat (bitlen n - 1) \<le> n \<and> n < 2 ^ nat (bitlen n)"
proof (induction n rule: bitlen.induct)
  case (1 n)
  show ?case
  proof (cases "n = 1")
    case True
    then show ?thesis
      by (simp add: bitlen_1)
  next
    case False
    with "1.prems" have h: "0 < n div 2"
      by simp
    with "1.IH" "1.prems" have IH: "2 ^ nat (bitlen (n div 2) - 1) \<le> n div 2"
      "n div 2 < 2 ^ nat (bitlen (n div 2))"
      by simp_all
    have b: "bitlen n = 1 + bitlen (n div 2)"
      using "1.prems" by (subst bitlen.simps) simp
    have p: "1 \<le> bitlen (n div 2)"
      using h by (rule bitlen_pos)
    then have e: "nat (bitlen (n div 2)) = Suc (nat (bitlen (n div 2) - 1))"
      by simp
    have "2 * 2 ^ nat (bitlen (n div 2) - 1) \<le> n"
      using IH(1) by simp
    moreover have "n < 2 * 2 ^ nat (bitlen (n div 2))"
      using IH(2) by simp
    ultimately show ?thesis
      using p by (simp add: b e nat_add_distrib)
  qed
qed

lemma of_int_le_pow2: "(n :: int) \<le> 2 ^ k \<Longrightarrow> (of_int n :: rat) \<le> 2 ^ k"
proof -
  assume "n \<le> 2 ^ k"
  then have "(of_int n :: rat) \<le> of_int (2 ^ k)"
    by (simp only: of_int_le_iff)
  then show ?thesis by simp
qed

lemma pow2_le_of_int: "2 ^ k \<le> (n :: int) \<Longrightarrow> 2 ^ k \<le> (of_int n :: rat)"
proof -
  assume "2 ^ k \<le> n"
  then have "(of_int (2 ^ k) :: rat) \<le> of_int n"
    by (simp only: of_int_le_iff)
  then show ?thesis by simp
qed

lemma floor_log2_lower_ge1:
  assumes "1 \<le> a"
  shows "pow 2 (floor_log2 a) \<le> a"
proof -
  from assms have f: "0 < \<lfloor>a\<rfloor>" by simp
  from bitlen_bounds [OF f]
  have "2 ^ nat (bitlen \<lfloor>a\<rfloor> - 1) \<le> (of_int \<lfloor>a\<rfloor> :: rat)"
    by (intro pow2_le_of_int) simp
  also have "\<dots> \<le> a"
    by (rule of_int_floor_le)
  finally show ?thesis
    using assms bitlen_pos [OF f] by (simp add: floor_log2_def pow_def)
qed

lemma floor_log2_upper_ge1:
  assumes "1 \<le> a"
  shows "a < pow 2 (floor_log2 a + 1)"
proof -
  from assms have f: "0 < \<lfloor>a\<rfloor>" by simp
  from bitlen_bounds [OF f] have "\<lfloor>a\<rfloor> + 1 \<le> 2 ^ nat (bitlen \<lfloor>a\<rfloor>)" by simp
  then have "(of_int (\<lfloor>a\<rfloor> + 1) :: rat) \<le> 2 ^ nat (bitlen \<lfloor>a\<rfloor>)"
    by (rule of_int_le_pow2)
  moreover have "a < of_int (\<lfloor>a\<rfloor> + 1)"
    using floor_correct [of a] by simp
  ultimately have "a < 2 ^ nat (bitlen \<lfloor>a\<rfloor>)"
    by (rule less_le_trans [rotated])
  with assms bitlen_pos [OF f] show ?thesis
    by (simp add: floor_log2_def pow_def)
qed

lemma floor_log2_lower_lt1:
  assumes "0 < a" and "a < 1"
  shows "pow 2 (floor_log2 a) \<le> a"
proof -
  from assms have "1 < 1 / a" by simp
  then have c: "0 < \<lceil>1 / a\<rceil> - 1"
    by (simp add: less_ceiling_iff)
  let ?k = "bitlen (\<lceil>1 / a\<rceil> - 1)"
  from bitlen_bounds [OF c] have "\<lceil>1 / a\<rceil> \<le> 2 ^ nat ?k"
    by simp
  then have "(of_int \<lceil>1 / a\<rceil> :: rat) \<le> 2 ^ nat ?k"
    by (rule of_int_le_pow2)
  moreover have "1 / a \<le> of_int \<lceil>1 / a\<rceil>"
    by (rule le_of_int_ceiling)
  ultimately have "1 / a \<le> 2 ^ nat ?k"
    by (rule order_trans [rotated])
  then have "1 \<le> 2 ^ nat ?k * a"
    using assms(1) by (simp add: pos_divide_le_eq)
  then have "1 / 2 ^ nat ?k \<le> a"
    by (simp add: pos_divide_le_eq mult.commute)
  moreover have "floor_log2 a = - ?k"
    using assms by (simp add: floor_log2_def)
  moreover have "1 \<le> ?k"
    using c by (rule bitlen_pos)
  ultimately show ?thesis
    by (simp add: pow_def)
qed

lemma floor_log2_upper_lt1:
  assumes "0 < a" and "a < 1"
  shows "a < pow 2 (floor_log2 a + 1)"
proof -
  from assms have "1 < 1 / a" by simp
  then have c: "0 < \<lceil>1 / a\<rceil> - 1"
    by (simp add: less_ceiling_iff)
  let ?k = "bitlen (\<lceil>1 / a\<rceil> - 1)"
  have k: "1 \<le> ?k"
    using c by (rule bitlen_pos)
  from bitlen_bounds [OF c] have "2 ^ nat (?k - 1) \<le> (of_int (\<lceil>1 / a\<rceil> - 1) :: rat)"
    by (intro pow2_le_of_int) simp
  moreover have "(of_int (\<lceil>1 / a\<rceil> - 1) :: rat) < 1 / a"
    using ceiling_correct [of "1 / a"] by simp
  ultimately have "2 ^ nat (?k - 1) < 1 / a"
    by (rule le_less_trans)
  then have "2 ^ nat (?k - 1) * a < 1"
    using assms(1) by (simp add: pos_less_divide_eq)
  then have lt: "a < 1 / 2 ^ nat (?k - 1)"
    by (simp add: pos_less_divide_eq mult.commute)
  have e: "floor_log2 a + 1 = - (?k - 1)"
    using assms by (simp add: floor_log2_def)
  show ?thesis
  proof (cases "?k = 1")
    case True
    with lt e show ?thesis
      by (simp add: pow_def)
  next
    case False
    with k have "\<not> 0 \<le> - (?k - 1)" by simp
    then have "pow 2 (- (?k - 1)) = 1 / 2 ^ nat (?k - 1)"
      by (simp only: pow_def if_False minus_minus)
    with lt e show ?thesis
      by simp
  qed
qed

lemma floor_log2_bounds:
  assumes "0 < a"
  shows "pow 2 (floor_log2 a) \<le> a \<and> a < pow 2 (floor_log2 a + 1)"
proof (cases "1 \<le> a")
  case True
  then show ?thesis
    using floor_log2_lower_ge1 floor_log2_upper_ge1 by blast
next
  case False
  then have "a < 1" by simp
  with assms show ?thesis
    using floor_log2_lower_lt1 floor_log2_upper_lt1 by blast
qed

lemma round_half_even_of_int: "round_half_even (of_int m) = m"
  by (simp add: round_half_even_def)

lemma roundToDouble_exact:
  assumes "0 < m" and "m \<le> 2 ^ 53"
  shows "roundToDouble (of_int m) = Finite (of_int m)"
    and "roundToDouble (- of_int m) = Finite (- of_int m)"
proof -
  let ?a = "of_int m :: rat"
  have a1: "1 \<le> ?a" using assms(1) by simp
  have fl: "\<lfloor>?a\<rfloor> = m" by simp
  define e where "e = bitlen m - 1"
  have e: "floor_log2 ?a = e"
    using a1 by (simp add: floor_log2_def e_def)
  have e0: "0 \<le> e"
    using bitlen_pos [OF assms(1)] by (simp add: e_def)
  have "(2::int) ^ nat e \<le> 2 ^ 53"
    using bitlen_bounds [OF assms(1)] assms(2) by (simp add: e_def)
  then have "nat e \<le> 53"
    by (rule power_le_imp_le_exp [rotated]) simp
  with e0 have e53: "e \<le> 53" by simp
  have r: "of_int (round_half_even (?a / pow 2 (e - 52))) * pow 2 (e - 52) = ?a"
  proof (cases "e \<le> 52")
    case True
    define j where "j = nat (52 - e)"
    have p: "pow 2 (e - 52) = 1 / 2 ^ j"
    proof (cases "e = 52")
      case True
      then show ?thesis by (simp add: pow_def j_def)
    next
      case False
      with \<open>e \<le> 52\<close> have "\<not> 0 \<le> e - 52" "nat (- (e - 52)) = j"
        by (simp_all add: j_def)
      then show ?thesis by (simp only: pow_def if_False)
    qed
    have "?a / pow 2 (e - 52) = of_int (m * 2 ^ j)"
      by (simp add: p)
    then have "round_half_even (?a / pow 2 (e - 52)) = m * 2 ^ j"
      by (simp only: round_half_even_of_int)
    then show ?thesis
      by (simp add: p)
  next
    case False
    with e53 have e: "e = 53" by simp
    then have "(2::int) ^ 53 \<le> m"
      using bitlen_bounds [OF assms(1)] by (simp add: e_def)
    with assms(2) have m: "m = 2 ^ 53" by simp
    have p: "pow 2 (e - 52) = 2"
      by (simp add: e pow_def)
    have "?a / pow 2 (e - 52) = of_int (2 ^ 52)"
      by (simp add: p m)
    then have "round_half_even (?a / pow 2 (e - 52)) = 2 ^ 52"
      by (simp only: round_half_even_of_int)
    then show ?thesis
      by (simp add: p m)
  qed
  have "?a \<le> 2 ^ 53"
    using assms(2) by (rule of_int_le_pow2)
  also have "(2::rat) ^ 53 < 2 ^ 1024"
    by (rule power_strict_increasing) simp_all
  finally have small: "\<not> pow 2 1024 \<le> ?a"
    by (simp add: pow_def)
  have m: "max e (- 1022) = e"
    using e0 by simp
  show "roundToDouble (of_int m) = Finite (of_int m)"
    using assms(1) small by (simp add: roundToDouble_def e m r Let_def)
  show "roundToDouble (- of_int m) = Finite (- of_int m)"
    using assms(1) small by (simp add: roundToDouble_def e m r Let_def)
qed

lemma number_of_int_exact: "\<bar>i\<bar> \<le> 2 ^ 53 \<Longrightarrow> number_of_int i = Finite (of_int i)"
proof -
  assume b: "\<bar>i\<bar> \<le> 2 ^ 53"
  consider "i = 0" | "0 < i" | "i < 0" by linarith
  then show ?thesis
  proof cases
    case 1
    then show ?thesis by (simp add: number_of_int_def roundToDouble_def)
  next
    case 2
    with b roundToDouble_exact(1) [of i] show ?thesis
      by (simp add: number_of_int_def)
  next
    case 3
    with b roundToDouble_exact(2) [of "- i"] show ?thesis
      by (simp add: number_of_int_def)
  qed
qed

subsection \<open>The calendar\<close>

text \<open>
  \<open>YearFromTime\<close> is the year the language definition asks for: the first day of the
  year is not after the day of \<open>t\<close>, and the first day of the next year is. The day
  within the year, the month and the day of the month are then within their ranges.
\<close>

lemma div_bounds:
  fixes n m :: int
  assumes "0 < m"
  shows "m * (n div m) \<le> n" and "n < m * (n div m) + m"
proof -
  have "n = m * (n div m) + n mod m"
    by simp
  moreover have "0 \<le> n mod m" and "n mod m < m"
    using assms by simp_all
  ultimately show "m * (n div m) \<le> n" and "n < m * (n div m) + m"
    by linarith+
qed

lemma DayFromYear_bounds:
  "146097 * (y - 1970) - 506 \<le> 400 * DayFromYear y"
  "400 * DayFromYear y \<le> 146097 * (y - 1970) + 589"
proof -
  define a where "a = (y - 1969) div 4"
  define b where "b = (y - 1901) div 100"
  define c where "c = (y - 1601) div 400"
  have a: "4 * a \<le> y - 1969" "y - 1969 < 4 * a + 4"
    unfolding a_def by (rule div_bounds; simp)+
  have b: "100 * b \<le> y - 1901" "y - 1901 < 100 * b + 100"
    unfolding b_def by (rule div_bounds; simp)+
  have c: "400 * c \<le> y - 1601" "y - 1601 < 400 * c + 400"
    unfolding c_def by (rule div_bounds; simp)+
  have D: "DayFromYear y = 365 * (y - 1970) + a - b + c"
    by (simp add: DayFromYear_def a_def b_def c_def)
  from a b c show "146097 * (y - 1970) - 506 \<le> 400 * DayFromYear y"
    unfolding D by simp
  from a b c show "400 * DayFromYear y \<le> 146097 * (y - 1970) + 589"
    unfolding D by simp
qed

lemma YearFromTime_correct:
  "DayFromYear (YearFromTime t) \<le> Day t" "Day t < DayFromYear (YearFromTime t + 1)"
proof -
  define d where "d = Day t"
  define k where "k = (400 * d) div 146097"
  have k: "146097 * k \<le> 400 * d" "400 * d < 146097 * k + 146097"
    unfolding k_def by (rule div_bounds; simp)+
  have up: "d < DayFromYear (1970 + k + 2)"
    using DayFromYear_bounds(1) [of "1970 + k + 2"] k by simp
  have low: "DayFromYear (1970 + k - 1) \<le> d"
    using DayFromYear_bounds(2) [of "1970 + k - 1"] k by simp
  have Y: "YearFromTime t =
          (if DayFromYear (1970 + k + 1) \<le> d then 1970 + k + 1
           else if DayFromYear (1970 + k) \<le> d then 1970 + k
           else 1970 + k - 1)"
    by (simp add: YearFromTime_def d_def k_def Let_def)
  have "DayFromYear (YearFromTime t) \<le> d \<and> d < DayFromYear (YearFromTime t + 1)"
  proof (cases "DayFromYear (1970 + k + 1) \<le> d")
    case True
    with Y have "YearFromTime t = 1970 + k + 1" by simp
    with True up show ?thesis
      by (simp add: add.assoc)
  next
    case False
    note F = this
    show ?thesis
    proof (cases "DayFromYear (1970 + k) \<le> d")
      case True
      with Y F have "YearFromTime t = 1970 + k" by simp
      with True F show ?thesis
        by (simp add: add.assoc)
    next
      case False
      with Y F have "YearFromTime t = 1970 + k - 1" by simp
      with False low show ?thesis
        by simp
    qed
  qed
  then show "DayFromYear (YearFromTime t) \<le> Day t" "Day t < DayFromYear (YearFromTime t + 1)"
    by (simp_all add: d_def)
qed

lemma div_step:
  fixes n m :: int
  assumes "0 < m"
  shows "(n + 1) div m = n div m + (if (n + 1) mod m = 0 then 1 else 0)"
proof -
  define q r where "q = n div m" and "r = n mod m"
  have n: "n = m * q + r" and r: "0 \<le> r" "r < m"
    using assms by (simp_all add: q_def r_def)
  show ?thesis
  proof (cases "r + 1 < m")
    case True
    with n r have "n + 1 = m * q + (r + 1)" "0 \<le> r + 1"
      by simp_all
    with True have "(n + 1) div m = q" "(n + 1) mod m = r + 1"
      by (auto intro: int_div_pos_eq int_mod_pos_eq)
    with r show ?thesis
      by (simp add: q_def)
  next
    case False
    with r have "r + 1 = m" by simp
    with n have "n + 1 = m * (q + 1) + 0"
      by (simp add: algebra_simps)
    with assms have "(n + 1) div m = q + 1" "(n + 1) mod m = 0"
      by (auto intro: int_div_pos_eq int_mod_pos_eq)
    then show ?thesis
      by (simp add: q_def)
  qed
qed

lemma mod4_shift: "(y - 1968) mod 4 = y mod 4" for y :: int
    using mod_mult_self2 [of y 4 "- 492"] by simp

lemma mod100_shift: "(y - 1900) mod 100 = y mod 100" for y :: int
    using mod_mult_self2 [of y 100 "- 19"] by simp

lemma mod400_shift: "(y - 1600) mod 400 = y mod 400" for y :: int
    using mod_mult_self2 [of y 400 "- 4"] by simp

lemma div4_step: "(y - 1968) div 4 = (y - 1969) div 4 + (if y mod 4 = 0 then 1 else 0)" for y :: int
  using div_step [of 4 "y - 1969"] by (simp add: mod4_shift)

lemma div100_step: "(y - 1900) div 100 = (y - 1901) div 100 + (if y mod 100 = 0 then 1 else 0)" for y :: int
  using div_step [of 100 "y - 1901"] by (simp add: mod100_shift)

lemma div400_step: "(y - 1600) div 400 = (y - 1601) div 400 + (if y mod 400 = 0 then 1 else 0)" for y :: int
  using div_step [of 400 "y - 1601"] by (simp add: mod400_shift)

lemma mod100_mod4: "y mod 100 = 0 \<Longrightarrow> y mod 4 = 0" for y :: int
  using mod_mod_cancel [of 4 100 y] by simp

lemma mod400_mod100: "y mod 400 = 0 \<Longrightarrow> y mod 100 = 0" for y :: int
  using mod_mod_cancel [of 100 400 y] by simp

lemma DayFromYear_step: "DayFromYear (y + 1) = DayFromYear y + DaysInYear y"
proof -
  have "DayFromYear (y + 1) = 365 * (y - 1969) + (y - 1968) div 4 - (y - 1900) div 100
          + (y - 1600) div 400"
    by (simp add: DayFromYear_def)
  also have "\<dots> = 365 * (y - 1969)
      + ((y - 1969) div 4 + (if y mod 4 = 0 then 1 else 0))
      - ((y - 1901) div 100 + (if y mod 100 = 0 then 1 else 0))
      + ((y - 1601) div 400 + (if y mod 400 = 0 then 1 else 0))"
    by (simp only: div4_step div100_step div400_step)
  also have "\<dots> = DayFromYear y + DaysInYear y"
    using mod100_mod4 [of y] mod400_mod100 [of y]
    by (cases "y mod 4 = 0"; cases "y mod 100 = 0"; cases "y mod 400 = 0")
      (simp_all add: DayFromYear_def DaysInYear_def)
  finally show ?thesis .
qed

lemma DayWithinYear_bounds:
  "0 \<le> DayWithinYear t" "DayWithinYear t < 365 + InLeapYear t"
proof -
  show "0 \<le> DayWithinYear t"
    using YearFromTime_correct(1) [of t] by (simp add: DayWithinYear_def)
  have "DaysInYear (YearFromTime t) = 365 + InLeapYear t"
    by (simp add: InLeapYear_def DaysInYear_def)
  then show "DayWithinYear t < 365 + InLeapYear t"
    using YearFromTime_correct(2) [of t] DayFromYear_step [of "YearFromTime t"]
    by (simp add: DayWithinYear_def)
qed

lemma InLeapYear_cases: "InLeapYear t = 0 \<or> InLeapYear t = 1"
  by (simp add: InLeapYear_def)

lemma MonthFromTime_bounds: "0 \<le> MonthFromTime t" "MonthFromTime t \<le> 11"
  by (simp_all add: MonthFromTime_def Let_def)

lemma DateFromTime_bounds: "1 \<le> DateFromTime t" "DateFromTime t \<le> 31"
  using DayWithinYear_bounds [of t] InLeapYear_cases [of t]
  by (auto simp add: DateFromTime_def MonthFromTime_def Let_def split: if_splits)

subsection \<open>Decimal digits and the date of an ISO string\<close>

declare decimal.simps [simp del]

lemma digit_char_is_digit: "0 \<le> d \<Longrightarrow> d \<le> 9 \<Longrightarrow> is_digit (digit_char d)"
proof -
  assume "0 \<le> d" "d \<le> 9"
  then have "d = 0 \<or> d = 1 \<or> d = 2 \<or> d = 3 \<or> d = 4 \<or> d = 5 \<or> d = 6 \<or> d = 7 \<or> d = 8 \<or> d = 9"
    by arith
  then show ?thesis
    by (auto simp add: is_digit_def digit_char_def)
qed

lemma decimal_digits: "0 \<le> n \<Longrightarrow> list_all is_digit (decimal n)"
proof (induction n rule: decimal.induct)
  case (1 n)
  show ?case
  proof (cases "n < 10")
    case True
    with "1.prems" show ?thesis
      by (simp add: decimal.simps [of n] digit_char_is_digit)
  next
    case False
    with "1.prems" "1.IH" have "list_all is_digit (decimal (n div 10))"
      by simp
    moreover have "is_digit (digit_char (n mod 10))"
      by (rule digit_char_is_digit) simp_all
    ultimately show ?thesis
      using False by (simp add: decimal.simps [of n])
  qed
qed

lemma length_decimal: "0 \<le> n \<Longrightarrow> n < 10 ^ k \<Longrightarrow> 0 < k \<Longrightarrow> length (decimal n) \<le> k"
proof (induction n arbitrary: k rule: decimal.induct)
  case (1 n)
  show ?case
  proof (cases "n < 10")
    case True
    with "1.prems" show ?thesis
      by (simp add: decimal.simps [of n])
  next
    case False
    from "1.prems" obtain j where k: "k = Suc j"
      by (cases k) auto
    with False "1.prems" have "0 < j"
      by (cases j) auto
    moreover from "1.prems" k have "n div 10 < 10 ^ j"
      by simp
    moreover from "1.prems" have "0 \<le> n div 10"
      by simp
    ultimately have "length (decimal (n div 10)) \<le> j"
      using False "1.IH" by simp
    with False k show ?thesis
      by (simp add: decimal.simps [of n])
  qed
qed

lemma length_pad_zeros: "length s \<le> k \<Longrightarrow> length (pad_zeros k s) = k"
  by (simp add: pad_zeros_def)

lemma pad_zeros_digits: "list_all is_digit s \<Longrightarrow> list_all is_digit (pad_zeros k s)"
  by (auto simp add: pad_zeros_def is_digit_def list_all_iff)

lemma padded_field:
  assumes "0 \<le> n" and "n < 10 ^ k" and "0 < k"
  shows "length (pad_zeros k (decimal n)) = k" and "list_all is_digit (pad_zeros k (decimal n))"
  using assms by (simp_all add: length_pad_zeros length_decimal pad_zeros_digits decimal_digits)

lemma digit_not_T: "list_all is_digit s \<Longrightarrow> \<forall>c\<in>set s. c \<noteq> 0x54"
  by (auto simp add: list_all_iff is_digit_def)

lemma date_fields:
  assumes "0 \<le> YearFromTime t" and "YearFromTime t \<le> 9999"
  shows "length (pad_zeros 4 (decimal (YearFromTime t))) = 4"
    and "list_all is_digit (pad_zeros 4 (decimal (YearFromTime t)))"
    and "length (pad_zeros 2 (decimal (MonthFromTime t + 1))) = 2"
    and "list_all is_digit (pad_zeros 2 (decimal (MonthFromTime t + 1)))"
    and "length (pad_zeros 2 (decimal (DateFromTime t))) = 2"
    and "list_all is_digit (pad_zeros 2 (decimal (DateFromTime t)))"
  using assms MonthFromTime_bounds [of t] DateFromTime_bounds [of t]
  by (simp_all add: padded_field)

lemma split_first_date:
  assumes "0 \<le> YearFromTime t" and "YearFromTime t \<le> 9999"
  shows "split_first 0x54 (toISOString t) = utcCalendarDate t"
proof -
  note f = date_fields [OF assms]
  have "\<forall>c\<in>set (utcCalendarDate t). c \<noteq> 0x54"
    using digit_not_T [OF f(2)] digit_not_T [OF f(4)] digit_not_T [OF f(6)]
    by (auto simp add: utcCalendarDate_def js_eval)
  moreover have "toISOString t = utcCalendarDate t @ 0x54 # 
     (pad_zeros 2 (decimal (HourFromTime t)) @ js '':''
     @ pad_zeros 2 (decimal (MinFromTime t)) @ js '':''
     @ pad_zeros 2 (decimal (SecFromTime t)) @ js ''.''
     @ pad_zeros 3 (decimal (msFromTime t)) @ js ''Z'')"
    using assms by (simp add: toISOString_def utcCalendarDate_def iso_year_def js_eval)
  ultimately show ?thesis
    by (simp add: split_first_def)
qed

lemma utcCalendarDate_form:
  assumes "0 \<le> YearFromTime t" and "YearFromTime t \<le> 9999"
  shows "is_YYYY_MM_DD (utcCalendarDate t)"
  using date_fields [OF assms]
  by (simp add: is_YYYY_MM_DD_def utcCalendarDate_def js_eval nth_append)

subsection \<open>Sums of integer quantities\<close>

text \<open>
  Additions of integers are exact as long as the result has a magnitude of \<open>2 ^ 53\<close> at
  most, so a fold over integer quantities whose magnitudes add up to no more than that
  is the exact sum.
\<close>

lemma roundToDouble_of_int:
  "\<bar>i\<bar> \<le> 2 ^ 53 \<Longrightarrow> roundToDouble (of_int i) = Finite (of_int i)"
  using number_of_int_exact [of i] by (simp add: number_of_int_def)

lemma plus_number_exact:
  "\<bar>a + b\<bar> \<le> 2 ^ 53
   \<Longrightarrow> plus_number (Finite (of_int a)) (Finite (of_int b)) = Finite (of_int (a + b))"
  using roundToDouble_of_int [of "a + b"] by simp

lemma minus_number_exact:
  "\<bar>a - b\<bar> \<le> 2 ^ 53
   \<Longrightarrow> minus_number (Finite (of_int a)) (Finite (of_int b)) = Finite (of_int (a - b))"
  using roundToDouble_of_int [of "a - b"] by (simp add: minus_number_def)

lemma sum_list_abs_nonneg: "0 \<le> (\<Sum>n\<leftarrow>ns. \<bar>n :: int\<bar>)"
  by (induction ns) auto

lemma foldl_plus_exact:
  assumes "map f xs = map (\<lambda>n. Finite (of_int n)) ns"
    and "\<bar>a\<bar> + (\<Sum>n\<leftarrow>ns. \<bar>n\<bar>) \<le> 2 ^ 53"
  shows "foldl (\<lambda>sum x. plus_number sum (f x)) (Finite (of_int a)) xs
         = Finite (of_int (a + sum_list ns))"
  using assms
proof (induction xs arbitrary: a ns)
  case Nil
  then show ?case by simp
next
  case (Cons x xs)
  from Cons.prems(1) obtain n ms where ns: "ns = n # ms" and x: "f x = Finite (of_int n)"
    and ms: "map f xs = map (\<lambda>n. Finite (of_int n)) ms"
    by (cases ns) auto
  have nonneg: "0 \<le> (\<Sum>n\<leftarrow>ms. \<bar>n\<bar>)"
    by (rule sum_list_abs_nonneg)
  from Cons.prems(2) ns have b: "\<bar>a\<bar> + \<bar>n\<bar> + (\<Sum>n\<leftarrow>ms. \<bar>n\<bar>) \<le> 2 ^ 53"
    by simp
  with nonneg have "\<bar>a + n\<bar> \<le> 2 ^ 53"
    by linarith
  then have step: "plus_number (Finite (of_int a)) (f x) = Finite (of_int (a + n))"
    unfolding x by (rule plus_number_exact)
  from b have "\<bar>a + n\<bar> + (\<Sum>n\<leftarrow>ms. \<bar>n\<bar>) \<le> 2 ^ 53"
    by linarith
  with Cons.IH [OF ms, of "a + n"] step ns show ?case
    by (simp add: add.assoc)
qed

lemma abs_sum_list_le: "\<bar>sum_list ns\<bar> \<le> (\<Sum>n\<leftarrow>ns. \<bar>n :: int\<bar>)"
  by (induction ns) auto

lemma getCalculatedStock_integers:
  assumes p: "map purchase.quantity (filter (\<lambda>p. purchase.productId p = pid) (purchases h))
              = map (\<lambda>n. Finite (of_int n)) ps"
    and r: "map returnQuantity (filter (\<lambda>r. salesReturn.productId r = pid) (salesReturns h))
            = map (\<lambda>n. Finite (of_int n)) rs"
    and s: "map saleData.quantity (filter (\<lambda>s. saleData.productId s = pid) (sales h))
            = map (\<lambda>n. Finite (of_int n)) ss"
    and bound: "(\<Sum>n\<leftarrow>ps. \<bar>n\<bar>) + (\<Sum>n\<leftarrow>rs. \<bar>n\<bar>) + (\<Sum>n\<leftarrow>ss. \<bar>n\<bar>) \<le> 2 ^ 53"
  shows "getCalculatedStock h pid = Finite (of_int (sum_list ps + sum_list rs - sum_list ss))"
proof -
  have nn: "0 \<le> (\<Sum>n\<leftarrow>ps. \<bar>n\<bar>)" "0 \<le> (\<Sum>n\<leftarrow>rs. \<bar>n\<bar>)" "0 \<le> (\<Sum>n\<leftarrow>ss. \<bar>n\<bar>)"
    by (rule sum_list_abs_nonneg)+
  note le = abs_sum_list_le [of ps] abs_sum_list_le [of rs] abs_sum_list_le [of ss]
  have P: "foldl (\<lambda>sum x. plus_number sum (purchase.quantity x)) (Finite 0)
             (filter (\<lambda>p. purchase.productId p = pid) (purchases h))
           = Finite (of_int (sum_list ps))"
    using foldl_plus_exact [OF p, of 0] bound nn by simp
  have R: "foldl (\<lambda>sum x. plus_number sum (returnQuantity x)) (Finite 0)
             (filter (\<lambda>r. salesReturn.productId r = pid) (salesReturns h))
           = Finite (of_int (sum_list rs))"
    using foldl_plus_exact [OF r, of 0] bound nn by simp
  have S: "foldl (\<lambda>sum x. plus_number sum (saleData.quantity x)) (Finite 0)
             (filter (\<lambda>s. saleData.productId s = pid) (sales h))
           = Finite (of_int (sum_list ss))"
    using foldl_plus_exact [OF s, of 0] bound nn by simp
  have "\<bar>sum_list ps + sum_list rs\<bar> \<le> 2 ^ 53"
    using le bound nn by linarith
  then have PR: "plus_number (Finite (of_int (sum_list ps))) (Finite (of_int (sum_list rs)))
                 = Finite (of_int (sum_list ps + sum_list rs))"
    by (rule plus_number_exact)
  have "\<bar>sum_list ps + sum_list rs - sum_list ss\<bar> \<le> 2 ^ 53"
    using le bound nn by linarith
  then have "minus_number (Finite (of_int (sum_list ps + sum_list rs)))
               (Finite (of_int (sum_list ss)))
             = Finite (of_int (sum_list ps + sum_list rs - sum_list ss))"
    by (rule minus_number_exact)
  with P R S PR show ?thesis
    by (simp add: getCalculatedStock_def)
qed

subsection \<open>Order and minimum of Numbers\<close>

lemma le_number_not_NaN: "le_number x y \<Longrightarrow> x \<noteq> NaN \<and> y \<noteq> NaN"
  by (cases x; cases y) simp_all

lemma le_number_refl: "x \<noteq> NaN \<Longrightarrow> le_number x x"
  by (cases x) simp_all

lemma le_number_trans: "le_number x y \<Longrightarrow> le_number y z \<Longrightarrow> le_number x z"
  by (cases x; cases y; cases z) simp_all

lemma le_number_antisym: "le_number x y \<Longrightarrow> le_number y x \<Longrightarrow> x = y"
  by (cases x; cases y) simp_all

lemma le_number_total: "x \<noteq> NaN \<Longrightarrow> y \<noteq> NaN \<Longrightarrow> le_number x y \<or> le_number y x"
  by (cases x; cases y) auto

lemma less_number_not_le: "less_number x y \<Longrightarrow> \<not> le_number y x"
  using le_number_antisym [of x y] by (auto simp add: less_number_def)

lemma or_number_not_NaN: "d \<noteq> NaN \<Longrightarrow> or_number n d \<noteq> NaN"
  by (simp add: or_number_def)

lemma min_number_le_right: "a \<noteq> NaN \<Longrightarrow> b \<noteq> NaN \<Longrightarrow> le_number (min_number a b) b"
  using le_number_refl [of b] by (simp add: min_number_def)

lemma min_number_right: "le_number b a \<Longrightarrow> min_number a b = b"
  using le_number_antisym [of a b] le_number_not_NaN [of b a] by (auto simp add: min_number_def)

subsection \<open>The handlers\<close>

lemma stateAfter_handleQuantityChange:
  "stateAfter fd (handleQuantityChange h fd q)
   = fd\<lparr>quantity := min_number (or_number (parseInt q) (Finite 1)) (availableStock h fd)\<rparr>"
  by (simp add: handleQuantityChange_def)

lemma selectedProduct_quantity_update [simp]:
  "selectedProduct h (fd\<lparr>quantity := q\<rparr>) = selectedProduct h fd"
  by (simp add: selectedProduct_def)

lemma availableStock_quantity_update [simp]:
  "availableStock h (fd\<lparr>quantity := q\<rparr>) = availableStock h fd"
  by (simp add: availableStock_def)

lemma replace_currency_filter:
  "replace_currency s = filter (\<lambda>c. c \<noteq> 0x24 \<and> c \<noteq> 0x09F3) s"
  by (induction s) simp_all

lemma find_Some_first:
  "find P xs = Some x \<Longrightarrow> x \<in> set xs \<and> P x"
  by (induction xs) (auto split: if_splits)

lemma find_present:
  "y \<in> set xs \<Longrightarrow> P y \<Longrightarrow> \<exists>x. find P xs = Some x"
  by (induction xs) auto

lemma handleSubmit_blocked:
  "selectedProduct h fd = None \<or> unitPrice fd = [] \<or> \<not> isQuantityValid h fd
   \<Longrightarrow> handleSubmit h clk fd = Inr [PreventDefault]"
  by (simp add: handleSubmit_def)

lemma handleSubmit_success:
  "selectedProduct h fd = Some p \<Longrightarrow> unitPrice fd \<noteq> [] \<Longrightarrow> isQuantityValid h fd
   \<Longrightarrow> handleSubmit h clk fd
       = Inr [PreventDefault, OnSaleCreated (saleData' clk fd p), OnOpenChange False,
              SetFormData initialFormData]"
  by (simp add: handleSubmit_def)

lemma quantity_saleData': "saleData.quantity (saleData' clk fd p) = quantity fd"
  by (simp add: saleData'_def)

lemma date_saleData': "saleData.date (saleData' clk fd p) = split_first 0x54 (toISOString (now clk))"
  by (simp add: saleData'_def)

lemma saleData'_timezoneOffset: "saleData' (clk\<lparr>timezoneOffset := tz\<rparr>) fd p = saleData' clk fd p"
  by (simp add: saleData'_def)

lemma handleSubmit_timezoneOffset:
  "handleSubmit h (clk\<lparr>timezoneOffset := tz\<rparr>) fd = handleSubmit h clk fd"
  by (simp add: handleSubmit_def saleData'_timezoneOffset split: option.split)



section \<open>Evaluation on the example data\<close>

text \<open>
  The simplifier evaluates the recursive functions on numerals with the equations below;
  each set unfolds the definitions of one part of the model.
\<close>

lemma floor_rat_numeral: "\<lfloor>numeral a / numeral b :: rat\<rfloor> = numeral a div numeral b"
  by (metis floor_divide_of_int_eq of_int_numeral)

lemma ceiling_rat_numeral: "\<lceil>numeral a / numeral b :: rat\<rceil> = - (- numeral a div numeral b)"
  by (metis ceiling_def floor_divide_of_int_eq of_int_numeral of_int_minus minus_divide_left)

lemma decimal_numeral:
  "decimal (numeral k) =
     (if numeral k < (10 :: int) then [digit_char (numeral k)]
      else decimal (numeral k div 10) @ [digit_char (numeral k mod 10)])"
  by (rule decimal.simps)

lemma decimal_0: "decimal 0 = [0x30]"
  by (simp add: decimal.simps [of 0] digit_char_def)

lemma decimal_1: "decimal 1 = [0x31]"
  by (simp add: decimal.simps [of 1] digit_char_def)

lemmas double_eval = roundToDouble_def floor_log2_def round_half_even_def pow_def Let_def
  bitlen_numeral bitlen_0 bitlen_1 floor_rat_numeral ceiling_rat_numeral

lemmas parseInt_eval = parseInt_def is_white_def is_radix_digit_def radix_digit_def radix_value_def
  js_eval

lemmas parseFloat_eval = parseFloat_def read_exponent_def digits_value_def digit_value_def
  is_digit_def is_white_def js_eval

lemmas toFixed_eval = toFixed_def pad_zeros_def digit_char_def decimal_numeral decimal_0 decimal_1
  floor_rat_numeral js_eval Let_def

lemmas date_eval = toISOString_def iso_year_def YearFromTime_def Day_def msPerDay_def
  DayFromYear_def DaysInYear_def DayWithinYear_def InLeapYear_def MonthFromTime_def
  DateFromTime_def HourFromTime_def MinFromTime_def SecFromTime_def msFromTime_def
  split_first_def utcCalendarDate_def pad_zeros_def decimal_numeral decimal_0 decimal_1
  digit_char_def js_eval Let_def

subsection \<open>Numbers\<close>

lemma parseInt_100: "parseInt (js ''100'') = Finite 100"
  by (simp add: parseInt_eval double_eval)

lemma parseInt_3: "parseInt (js ''3'') = Finite 3"
  by (simp add: parseInt_eval double_eval)

lemma parseInt_abc: "parseInt (js ''abc'') = NaN"
  by (simp add: parseInt_eval)

lemma parseInt_minus5: "parseInt (js ''-5'') = Finite (- 5)"
  by (simp add: parseInt_eval double_eval)

lemma parseFloat_19999:
  "parseFloat (js ''19.999'') = Finite (5629218059236409 / 281474976710656)"
  by (simp add: parseFloat_eval double_eval)

lemma times_19999_3:
  "times_number (Finite (5629218059236409 / 281474976710656)) (Finite 3)
   = Finite (4221913544427307 / 70368744177664)"
  by (simp add: double_eval)

lemma toFixed_19999:
  "toFixed (Finite (5629218059236409 / 281474976710656)) 2 = js ''20.00''"
  by (simp add: toFixed_eval)

lemma toFixed_59997:
  "toFixed (Finite (4221913544427307 / 70368744177664)) 2 = js ''60.00''"
  by (simp add: toFixed_eval)

subsection \<open>The example product list, forms and clocks\<close>

lemma stock_A: "getCalculatedStock exampleHooks (js ''A'') = Finite 42"
  by (simp add: getCalculatedStock_def exampleHooks_def js_eval minus_number_def double_eval)

lemma stock_B: "getCalculatedStock exampleHooks (js ''B'') = Finite 0"
  by (simp add: getCalculatedStock_def exampleHooks_def js_eval minus_number_def double_eval)

lemma stock_C: "getCalculatedStock exampleHooks (js ''C'') = Finite (- 1)"
  by (simp add: getCalculatedStock_def exampleHooks_def js_eval minus_number_def double_eval)

lemma selected_A:
  "selectedProduct exampleHooks (exampleForm ''A'' q price)
   = Some \<lparr>id' = js ''A'', name = js ''Widget'', sellPrice = js ''$19.999''\<rparr>"
  by (simp add: selectedProduct_def exampleHooks_def exampleForm_def js_eval)

lemma selected_B:
  "selectedProduct exampleHooks (exampleForm ''B'' q price)
   = Some \<lparr>id' = js ''B'', name = js ''Gadget'', sellPrice = 0x09F3 # js ''500''\<rparr>"
  by (simp add: selectedProduct_def exampleHooks_def exampleForm_def js_eval)

lemma selected_C:
  "selectedProduct exampleHooks (exampleForm ''C'' q price)
   = Some \<lparr>id' = js ''C'', name = js ''Gizmo'', sellPrice = js ''$7.50''\<rparr>"
  by (simp add: selectedProduct_def exampleHooks_def exampleForm_def js_eval)

lemma selected_initial: "selectedProduct exampleHooks initialFormData = None"
  by (simp add: selectedProduct_def exampleHooks_def initialFormData_def js_eval)

lemma available_A: "availableStock exampleHooks (exampleForm ''A'' q price) = Finite 42"
  by (simp add: availableStock_def selected_A stock_A)

lemma available_B: "availableStock exampleHooks (exampleForm ''B'' q price) = Finite 0"
  by (simp add: availableStock_def selected_B stock_B)

lemma available_C: "availableStock exampleHooks (exampleForm ''C'' q price) = Finite (- 1)"
  by (simp add: availableStock_def selected_C stock_C)

lemma valid_A_3: "isQuantityValid exampleHooks (exampleForm ''A'' 3 price)"
  by (simp add: isQuantityValid_def available_A) (simp add: exampleForm_def)

lemma unitPrice_exampleForm: "unitPrice (exampleForm pid q price) = js price"
  by (simp add: exampleForm_def)

lemma quantity_exampleForm: "quantity (exampleForm pid q price) = Finite q"
  by (simp add: exampleForm_def)

lemma exampleForm_quantity_update:
  "(exampleForm pid q price)\<lparr>quantity := Finite q'\<rparr> = exampleForm pid q' price"
  by (simp add: exampleForm_def)

lemma js_19999_nonempty: "js ''19.999'' \<noteq> []"
  by (simp add: js_eval)

lemma js_500_nonempty: "js ''500'' \<noteq> []"
  by (simp add: js_eval)

lemma year_exampleClock: "YearFromTime (now exampleClock) = 2024"
  by (simp add: exampleClock_def YearFromTime_def Day_def msPerDay_def DayFromYear_def)

lemma utcCalendarDate_exampleClock: "utcCalendarDate (now exampleClock) = js ''2024-11-03''"
  by (simp add: exampleClock_def date_eval)

lemma date_year10000:
  "split_first 0x54 (toISOString (now year10000Clock)) = js ''+010000-01-01''"
  by (simp add: year10000Clock_def date_eval)

lemma utcCalendarDate_year10000: "utcCalendarDate (now year10000Clock) = js ''10000-01-01''"
  by (simp add: year10000Clock_def date_eval)

section \<open>Fixed-two-decimal strings\<close>

text \<open>
  Below \<open>10 ^ 21\<close> in magnitude, \<^verbatim>\<open>toFixed(2)\<close> of a finite Number is \<open>fixed2\<close> of
  it, and that string has the form \<open>is_fixed2\<close>.
\<close>

lemma decimal_nonempty: "decimal n \<noteq> []"
  by (subst decimal.simps) simp

lemma decimal_split:
  assumes "10 \<le> n"
  shows "decimal n = decimal (n div 10) @ [digit_char (n mod 10)]"
  using assms by (subst decimal.simps) simp

lemma decimal_small: "n < 10 \<Longrightarrow> decimal n = [digit_char n]"
  by (subst decimal.simps) simp

lemma pad_zeros_decimal:
  assumes "0 \<le> n"
  shows "pad_zeros 3 (decimal n)
         = decimal (n div 100) @ [digit_char (n mod 100 div 10), digit_char (n mod 10)]"
proof -
  consider "n < 10" | "10 \<le> n" "n < 100" | "100 \<le> n" by linarith
  then show ?thesis
  proof cases
    case 1
    with assms have "n div 100 = 0" "n mod 100 div 10 = 0" "n mod 10 = n"
      by simp_all
    with 1 show ?thesis
      by (simp add: decimal_small pad_zeros_def digit_char_def numeral_3_eq_3)
  next
    case 2
    then have "n div 100 = 0" "n mod 100 = n" "n div 10 < 10"
      using assms by simp_all
    with 2 show ?thesis
      by (simp add: decimal_split decimal_small pad_zeros_def digit_char_def)
  next
    case 3
    then have t: "10 \<le> n div 10"
      by simp
    have d: "n div 10 div 10 = n div 100"
      by (simp add: div_mult2_eq [symmetric])
    have "n mod 100 = 10 * (n div 10 mod 10) + n mod 10"
      using zmod_zmult2_eq [of 10 n 10] by simp
    then have m: "n mod 100 div 10 = n div 10 mod 10"
      by simp
    have "decimal n = decimal (n div 100) @ [digit_char (n mod 100 div 10), digit_char (n mod 10)]"
      using 3 t by (simp add: decimal_split [of n] decimal_split [of "n div 10"] d m)
    moreover have "3 \<le> length (decimal n)"
      using decimal_nonempty [of "n div 100"] calculation
      by (cases "decimal (n div 100)") simp_all
    ultimately show ?thesis
      by (simp add: pad_zeros_def)
  qed
qed

lemma toFixed_fixed2:
  assumes "\<bar>q\<bar> < 10 ^ 21"
  shows "toFixed (Finite q) 2 = fixed2 q"
proof -
  let ?n = "\<lfloor>\<bar>q\<bar> * 100 + 1 / 2\<rfloor>"
  have n: "0 \<le> ?n"
    by simp
  have "pad_zeros 3 (decimal ?n)
        = decimal (?n div 100) @ [digit_char (?n mod 100 div 10), digit_char (?n mod 10)]"
    using n by (rule pad_zeros_decimal)
  with assms show ?thesis
    by (simp add: toFixed_def fixed2_def Let_def)
qed

lemma is_digit_not_minus: "is_digit c \<Longrightarrow> c \<noteq> 0x2D"
  by (auto simp add: is_digit_def)

lemma is_fixed2_fixed2: "is_fixed2 (fixed2 q)"
proof -
  define n where "n = \<lfloor>\<bar>q\<bar> * 100 + 1 / 2\<rfloor>"
  define w where "w = decimal (n div 100)"
  define t where "t = w @ js ''.'' @ [digit_char (n mod 100 div 10), digit_char (n mod 10)]"
  have f: "fixed2 q = (if q < 0 then js ''-'' else []) @ t"
    by (simp add: fixed2_def Let_def n_def w_def t_def)
  have "0 \<le> n"
    by (simp add: n_def)
  then have "0 \<le> n div 100"
    by (simp only: pos_imp_zdiv_nonneg_iff)
  then have w: "list_all is_digit w"
    unfolding w_def by (rule decimal_digits)
  obtain c cs where wc: "w = c # cs"
    using decimal_nonempty [of "n div 100"] by (cases w) (auto simp add: w_def)
  with w have c: "c \<noteq> 0x2D"
    by (simp add: is_digit_not_minus)
  have d1: "is_digit (digit_char (n mod 100 div 10))"
    by (rule digit_char_is_digit) simp_all
  have d0: "is_digit (digit_char (n mod 10))"
    by (rule digit_char_is_digit) simp_all
  have form: "4 \<le> length t \<and> list_all is_digit (take (length t - 3) t)
      \<and> t ! (length t - 3) = 0x2E \<and> list_all is_digit (drop (length t - 2) t)"
    using w d1 d0 wc by (simp add: t_def js_eval nth_append)
  have "t = c # (cs @ js ''.'' @ [digit_char (n mod 100 div 10), digit_char (n mod 10)])"
    by (simp add: t_def wc)
  with c have strip: "(case fixed2 q of [] \<Rightarrow> [] | c # cs \<Rightarrow> if c = 0x2D then cs else fixed2 q) = t"
    by (simp add: f js_eval)
  show ?thesis
    unfolding is_fixed2_def strip Let_def using form by blast
qed

section \<open>Stock is purchases plus returns minus sales\<close>

text \<open>
  Claim C1, as stated, fails: the sums are sums of doubles. With purchases of
  \<open>2 ^ 53 = 9007199254740992\<close> units and of one unit, and no return or sale,
  \<^verbatim>\<open>getCalculatedStock\<close> is \<open>2 ^ 53\<close>, which is not the sum \<open>2 ^ 53 + 1\<close> of the
  quantities.
\<close>

theorem getCalculatedStock_inexact:
  "map purchase.quantity (filter (\<lambda>p. purchase.productId p = js ''A'') (purchases largeStockHooks))
     = [Finite 9007199254740992, Finite 1]
   \<and> filter (\<lambda>r. salesReturn.productId r = js ''A'') (salesReturns largeStockHooks) = []
   \<and> filter (\<lambda>s. saleData.productId s = js ''A'') (sales largeStockHooks) = []
   \<and> getCalculatedStock largeStockHooks (js ''A'') = Finite 9007199254740992
   \<and> getCalculatedStock largeStockHooks (js ''A'') \<noteq> Finite (9007199254740992 + 1 + 0 - 0)"
  by (simp add: getCalculatedStock_def largeStockHooks_def js_eval minus_number_def double_eval)

text \<open>
  Claim C1, amended. For every product identifier and every content of the three
  collections in which the quantities of the records of that product are integers whose
  magnitudes add up to \<open>2 ^ 53\<close> at most, \<^verbatim>\<open>getCalculatedStock\<close> is the sum of the
  quantities of the purchases of that product, plus the sum of the return quantities of
  its sales returns, minus the sum of the quantities of its sales. The result is a plain
  number: it can be negative (it is for a product that was sold and never bought), and
  the function has no error result.
\<close>

theorem getCalculatedStock_sum:
  assumes "map purchase.quantity (filter (\<lambda>p. purchase.productId p = pid) (purchases h))
             = map (\<lambda>n. Finite (of_int n)) ps"
    and "map returnQuantity (filter (\<lambda>r. salesReturn.productId r = pid) (salesReturns h))
           = map (\<lambda>n. Finite (of_int n)) rs"
    and "map saleData.quantity (filter (\<lambda>s. saleData.productId s = pid) (sales h))
           = map (\<lambda>n. Finite (of_int n)) ss"
    and "(\<Sum>n\<leftarrow>ps. \<bar>n\<bar>) + (\<Sum>n\<leftarrow>rs. \<bar>n\<bar>) + (\<Sum>n\<leftarrow>ss. \<bar>n\<bar>) \<le> 2 ^ 53"
  shows "getCalculatedStock h pid = Finite (of_int (sum_list ps + sum_list rs - sum_list ss))
         \<and> (\<exists>h'. less_number (getCalculatedStock h' pid) (Finite 0))"
proof
  show "getCalculatedStock h pid = Finite (of_int (sum_list ps + sum_list rs - sum_list ss))"
    using assms by (rule getCalculatedStock_integers)
next
  define s :: sale where
    "s = \<lparr>saleData.productId = pid, saleData.productName = [], saleData.quantity = Finite 1,
          saleData.unitPrice = [], saleData.totalAmount = [], saleData.date = [],
          saleData.status = Completed, saleData.customerName = [], saleData.notes' = [],
          sale.id' = []\<rparr>"
  have "getCalculatedStock \<lparr>products = [], sales = [s], purchases = [], salesReturns = []\<rparr> pid
        = Finite (- 1)"
    by (simp add: getCalculatedStock_def s_def minus_number_def double_eval)
  then have "less_number
      (getCalculatedStock \<lparr>products = [], sales = [s], purchases = [], salesReturns = []\<rparr> pid)
      (Finite 0)"
    by (simp add: less_number_def)
  then show "\<exists>h'. less_number (getCalculatedStock h' pid) (Finite 0)"
    by (rule exI)
qed

theorem getCalculatedStock_sum_witness:
  "map purchase.quantity (filter (\<lambda>p. purchase.productId p = js ''A'') (purchases exampleHooks))
     = map (\<lambda>n. Finite (of_int n)) [30, 20]
   \<and> map returnQuantity (filter (\<lambda>r. salesReturn.productId r = js ''A'') (salesReturns exampleHooks))
     = map (\<lambda>n. Finite (of_int n)) [2]
   \<and> map saleData.quantity (filter (\<lambda>s. saleData.productId s = js ''A'') (sales exampleHooks))
     = map (\<lambda>n. Finite (of_int n)) [10]
   \<and> (\<Sum>n\<leftarrow>[30, 20]. \<bar>n\<bar>) + (\<Sum>n\<leftarrow>[2]. \<bar>n\<bar>) + (\<Sum>n\<leftarrow>[10]. \<bar>n\<bar>) \<le> (2 :: int) ^ 53
   \<and> getCalculatedStock exampleHooks (js ''A'') = Finite 42"
proof -
  have p: "map purchase.quantity
             (filter (\<lambda>p. purchase.productId p = js ''A'') (purchases exampleHooks))
           = map (\<lambda>n. Finite (of_int n)) [30, 20]"
    by (simp add: exampleHooks_def js_eval)
  have r: "map returnQuantity
             (filter (\<lambda>r. salesReturn.productId r = js ''A'') (salesReturns exampleHooks))
           = map (\<lambda>n. Finite (of_int n)) [2]"
    by (simp add: exampleHooks_def js_eval)
  have s: "map saleData.quantity
             (filter (\<lambda>s. saleData.productId s = js ''A'') (sales exampleHooks))
           = map (\<lambda>n. Finite (of_int n)) [10]"
    by (simp add: exampleHooks_def js_eval)
  have b: "(\<Sum>n\<leftarrow>[30, 20]. \<bar>n\<bar>) + (\<Sum>n\<leftarrow>[2]. \<bar>n\<bar>) + (\<Sum>n\<leftarrow>[10]. \<bar>n\<bar>) \<le> (2 :: int) ^ 53"
    by simp
  from getCalculatedStock_sum [OF p r s b] p r s b show ?thesis
    by simp
qed

section \<open>The submit button\<close>

text \<open>
  Claim C2, first half, which holds: in every state whose quantity exceeds the available
  stock the submit button is disabled and \<^verbatim>\<open>handleSubmit\<close> does nothing but
  \<^verbatim>\<open>preventDefault\<close>; with no stock this covers every quantity from 1 on.
\<close>

lemma submit_blocked_above_stock:
  "less_number (availableStock h fd) (quantity fd)
   \<Longrightarrow> submitDisabled h fd \<and> handleSubmit h clk fd = Inr [PreventDefault]"
  using less_number_not_le [of "availableStock h fd" "quantity fd"]
  by (simp add: submitDisabled_def isQuantityValid_def handleSubmit_blocked)

text \<open>
  Claim C2, second half, which the code breaks: with an available stock of zero the
  button is not disabled for every quantity. Product \<^verbatim>\<open>B\<close> has no stock; typing
  \<^verbatim>\<open>3\<close> into the quantity field stores \<^verbatim>\<open>Math.min(3, 0) = 0\<close>, and \<open>0 \<le> 0\<close>
  counts as a valid quantity: the button is enabled, and submitting emits a sale of
  quantity 0. The quantity input itself declares \<^verbatim>\<open>min="1"\<close>, which the check
  \<^verbatim>\<open>quantity <= availableStock\<close> does not enforce.
\<close>

theorem submit_enabled_without_stock:
  "selectedProduct exampleHooks (exampleForm ''B'' 1 ''500'') \<noteq> None
   \<and> availableStock exampleHooks (exampleForm ''B'' 1 ''500'') = Finite 0
   \<and> stateAfter (exampleForm ''B'' 1 ''500'')
         (handleQuantityChange exampleHooks (exampleForm ''B'' 1 ''500'') (js ''3''))
       = exampleForm ''B'' 0 ''500''
   \<and> availableStock exampleHooks (exampleForm ''B'' 0 ''500'') = Finite 0
   \<and> \<not> submitDisabled exampleHooks (exampleForm ''B'' 0 ''500'')
   \<and> handleSubmit exampleHooks exampleClock (exampleForm ''B'' 0 ''500'')
       = Inr [PreventDefault,
              OnSaleCreated (saleData' exampleClock (exampleForm ''B'' 0 ''500'')
                \<lparr>id' = js ''B'', name = js ''Gadget'', sellPrice = 0x09F3 # js ''500''\<rparr>),
              OnOpenChange False, SetFormData initialFormData]
   \<and> saleData.quantity (saleData' exampleClock (exampleForm ''B'' 0 ''500'')
            \<lparr>id' = js ''B'', name = js ''Gadget'', sellPrice = 0x09F3 # js ''500''\<rparr>)
       = Finite 0"
proof -
  let ?F = "exampleForm ''B'' 0 ''500''"
  have price: "unitPrice ?F \<noteq> []"
    by (simp add: unitPrice_exampleForm js_500_nonempty)
  have valid: "isQuantityValid exampleHooks ?F"
    by (simp add: isQuantityValid_def available_B quantity_exampleForm)
  have "productId ?F \<noteq> []"
    by (simp add: exampleForm_def js_eval)
  with price valid have enabled: "\<not> submitDisabled exampleHooks ?F"
    by (simp add: submitDisabled_def)
  have typed: "stateAfter (exampleForm ''B'' 1 ''500'')
         (handleQuantityChange exampleHooks (exampleForm ''B'' 1 ''500'') (js ''3'')) = ?F"
    by (simp add: stateAfter_handleQuantityChange parseInt_3 or_number_def min_number_def
        available_B exampleForm_quantity_update)
  show ?thesis
    using enabled typed handleSubmit_success [OF selected_B price valid, of exampleClock]
    by (simp add: selected_B available_B quantity_saleData' quantity_exampleForm)
qed

section \<open>Changing the quantity\<close>

text \<open>
  Claim C3. For every string \<open>q\<close> typed into the quantity field, the quantity stored by
  \<^verbatim>\<open>handleQuantityChange\<close> is \<^verbatim>\<open>Math.min(parseInt(q) || 1, availableStock)\<close>, and
  no other field changes. In particular a string that does not parse gives the default
  1 (capped like any other value), and a parsed value above the available stock is
  stored as the available stock: the input is capped, never rejected.
\<close>

theorem handleQuantityChange_clamps:
  "stateAfter fd (handleQuantityChange h fd q)
     = fd\<lparr>quantity := min_number (or_number (parseInt q) (Finite 1)) (availableStock h fd)\<rparr>
   \<and> quantity (stateAfter fd (handleQuantityChange h fd q))
     = min_number (or_number (parseInt q) (Finite 1)) (availableStock h fd)
   \<and> (parseInt q = NaN \<longrightarrow>
        quantity (stateAfter fd (handleQuantityChange h fd q))
        = min_number (Finite 1) (availableStock h fd))
   \<and> (less_number (availableStock h fd) (parseInt q) \<longrightarrow>
        quantity (stateAfter fd (handleQuantityChange h fd q)) = availableStock h fd)"
proof -
  have "min_number (or_number (parseInt q) (Finite 1)) (availableStock h fd) = availableStock h fd"
    if above: "less_number (availableStock h fd) (parseInt q)"
  proof (rule min_number_right)
    from above have le: "le_number (availableStock h fd) (parseInt q)"
      and ne: "availableStock h fd \<noteq> parseInt q"
      by (simp_all add: less_number_def)
    show "le_number (availableStock h fd) (or_number (parseInt q) (Finite 1))"
    proof (cases "parseInt q = Finite 0")
      case True
      with le ne show ?thesis
        by (cases "availableStock h fd") (simp_all add: or_number_def)
    next
      case False
      with le le_number_not_NaN [OF le] show ?thesis
        by (simp add: or_number_def)
    qed
  qed
  then show ?thesis
    by (simp add: stateAfter_handleQuantityChange or_number_def)
qed

theorem handleQuantityChange_clamps_witness:
  "parseInt (js ''100'') = Finite 100
   \<and> less_number (availableStock exampleHooks (exampleForm ''A'' 1 ''19.999'')) (Finite 100)
   \<and> quantity (stateAfter (exampleForm ''A'' 1 ''19.999'')
         (handleQuantityChange exampleHooks (exampleForm ''A'' 1 ''19.999'') (js ''100'')))
       = Finite 42
   \<and> parseInt (js ''abc'') = NaN
   \<and> quantity (stateAfter (exampleForm ''A'' 7 ''19.999'')
         (handleQuantityChange exampleHooks (exampleForm ''A'' 7 ''19.999'') (js ''abc'')))
       = Finite 1"
  using handleQuantityChange_clamps [of "exampleForm ''A'' 1 ''19.999''" exampleHooks "js ''100''"]
    handleQuantityChange_clamps [of "exampleForm ''A'' 7 ''19.999''" exampleHooks "js ''abc''"]
  by (simp add: parseInt_100 parseInt_abc available_A less_number_def min_number_def
      or_number_def)

section \<open>Submitting\<close>

text \<open>
  Claim C4. \<^verbatim>\<open>handleSubmit\<close> never raises an error. Unless a product is selected, the
  unit price is a non-empty string and the quantity is valid, it hands no record to
  \<^verbatim>\<open>onSaleCreated\<close>, does not call \<^verbatim>\<open>onOpenChange\<close> and leaves the form data as it
  is (its only effect is \<^verbatim>\<open>preventDefault\<close>).
\<close>

theorem handleSubmit_guarded:
  "(\<exists>es. handleSubmit h clk fd = Inr es)
   \<and> (selectedProduct h fd = None \<or> unitPrice fd = [] \<or> \<not> isQuantityValid h fd \<longrightarrow>
        (\<exists>es. handleSubmit h clk fd = Inr es \<and> emitted es = [] \<and> openChanges es = []
              \<and> stateAfter fd es = fd))"
proof (cases "selectedProduct h fd = None \<or> unitPrice fd = [] \<or> \<not> isQuantityValid h fd")
  case True
  then have "handleSubmit h clk fd = Inr [PreventDefault]"
    by (rule handleSubmit_blocked)
  then show ?thesis by simp
next
  case False
  then obtain p where "selectedProduct h fd = Some p" "unitPrice fd \<noteq> []" "isQuantityValid h fd"
    by auto
  then have "handleSubmit h clk fd
       = Inr [PreventDefault, OnSaleCreated (saleData' clk fd p), OnOpenChange False,
              SetFormData initialFormData]"
    by (rule handleSubmit_success)
  with False show ?thesis by simp
qed

theorem handleSubmit_guarded_witness:
  "selectedProduct exampleHooks initialFormData = None
   \<and> unitPrice (exampleForm ''A'' 3 []) = []
   \<and> \<not> isQuantityValid exampleHooks (exampleForm ''A'' 100 ''19.999'')
   \<and> (\<exists>es. handleSubmit exampleHooks exampleClock initialFormData = Inr es
          \<and> emitted es = [] \<and> openChanges es = []
          \<and> stateAfter initialFormData es = initialFormData)
   \<and> (\<exists>es. handleSubmit exampleHooks exampleClock (exampleForm ''A'' 3 []) = Inr es
          \<and> emitted es = [] \<and> openChanges es = []
          \<and> stateAfter (exampleForm ''A'' 3 []) es = exampleForm ''A'' 3 [])
   \<and> (\<exists>es. handleSubmit exampleHooks exampleClock (exampleForm ''A'' 100 ''19.999'') = Inr es
          \<and> emitted es = [] \<and> openChanges es = []
          \<and> stateAfter (exampleForm ''A'' 100 ''19.999'') es = exampleForm ''A'' 100 ''19.999'')"
proof -
  have 1: "selectedProduct exampleHooks initialFormData = None"
    by (rule selected_initial)
  have 2: "unitPrice (exampleForm ''A'' 3 []) = []"
    by (simp add: exampleForm_def js_eval)
  have 3: "\<not> isQuantityValid exampleHooks (exampleForm ''A'' 100 ''19.999'')"
    by (simp add: isQuantityValid_def available_A) (simp add: exampleForm_def)
  show ?thesis
    using 1 2 3
      handleSubmit_guarded [of exampleHooks exampleClock initialFormData]
      handleSubmit_guarded [of exampleHooks exampleClock "exampleForm ''A'' 3 []"]
      handleSubmit_guarded [of exampleHooks exampleClock "exampleForm ''A'' 100 ''19.999''"]
    by simp
qed

section \<open>Quantities below one\<close>

text \<open>
  Claim C5, as stated, fails: with a product selected whose stock is not positive, a
  change of the quantity does not always store the available stock. Product \<^verbatim>\<open>B\<close>
  has stock 0, and typing \<^verbatim>\<open>-5\<close> stores \<^verbatim>\<open>Math.min(-5, 0) = -5\<close>.
\<close>

theorem nonpositive_stock_counterexample:
  "selectedProduct exampleHooks (exampleForm ''B'' 1 ''500'') \<noteq> None
   \<and> le_number (availableStock exampleHooks (exampleForm ''B'' 1 ''500'')) (Finite 0)
   \<and> quantity (stateAfter (exampleForm ''B'' 1 ''500'')
        (handleQuantityChange exampleHooks (exampleForm ''B'' 1 ''500'') (js ''-5'')))
      = Finite (- 5)
   \<and> quantity (stateAfter (exampleForm ''B'' 1 ''500'')
        (handleQuantityChange exampleHooks (exampleForm ''B'' 1 ''500'') (js ''-5'')))
      \<noteq> availableStock exampleHooks (exampleForm ''B'' 1 ''500'')"
  by (simp add: selected_B available_B stateAfter_handleQuantityChange parseInt_minus5
      or_number_def min_number_def)

text \<open>
  Claim C5, amended. With a product selected whose available stock is zero or less,
  \<^verbatim>\<open>handleQuantityChange\<close> stores \<^verbatim>\<open>Math.min(parseInt(q) || 1, availableStock)\<close>:
  a quantity that is at most the available stock (so below 1), and equal to it unless
  the input parses to a number below it. In the resulting state the quantity counts as
  valid, so with a non-empty unit price \<^verbatim>\<open>handleSubmit\<close> passes its guard and emits a
  sale whose quantity is zero or negative.
\<close>

theorem nonpositive_stock_sale:
  assumes "selectedProduct h fd = Some p" and "le_number (availableStock h fd) (Finite 0)"
  shows "quantity (stateAfter fd (handleQuantityChange h fd q))
           = min_number (or_number (parseInt q) (Finite 1)) (availableStock h fd)
         \<and> le_number (quantity (stateAfter fd (handleQuantityChange h fd q)))
              (availableStock h fd)
         \<and> (le_number (availableStock h fd) (or_number (parseInt q) (Finite 1)) \<longrightarrow>
              quantity (stateAfter fd (handleQuantityChange h fd q)) = availableStock h fd)
         \<and> isQuantityValid h (stateAfter fd (handleQuantityChange h fd q))
         \<and> (unitPrice fd \<noteq> [] \<longrightarrow>
              (\<exists>s. handleSubmit h clk (stateAfter fd (handleQuantityChange h fd q))
                     = Inr [PreventDefault, OnSaleCreated s, OnOpenChange False,
                            SetFormData initialFormData]
                   \<and> saleData.quantity s = quantity (stateAfter fd (handleQuantityChange h fd q))
                   \<and> le_number (saleData.quantity s) (Finite 0)
                   \<and> \<not> le_number (Finite 1) (saleData.quantity s)))"
proof -
  let ?fd' = "stateAfter fd (handleQuantityChange h fd q)"
  let ?x = "or_number (parseInt q) (Finite 1)"
  have fd': "?fd' = fd\<lparr>quantity := min_number ?x (availableStock h fd)\<rparr>"
    by (rule stateAfter_handleQuantityChange)
  have q: "quantity ?fd' = min_number ?x (availableStock h fd)"
    by (simp add: fd')
  have x: "?x \<noteq> NaN"
    by (rule or_number_not_NaN) simp
  have st: "availableStock h fd \<noteq> NaN"
    using le_number_not_NaN [OF assms(2)] by simp
  have le: "le_number (quantity ?fd') (availableStock h fd)"
    unfolding q using x st by (rule min_number_le_right)
  have eq: "quantity ?fd' = availableStock h fd" if "le_number (availableStock h fd) ?x"
    unfolding q using that by (rule min_number_right)
  have sel: "selectedProduct h ?fd' = Some p"
    using assms(1) by (simp add: fd')
  have valid: "isQuantityValid h ?fd'"
    using le by (simp add: isQuantityValid_def fd')
  have le0: "le_number (quantity ?fd') (Finite 0)"
    using le assms(2) by (rule le_number_trans)
  have lt1: "\<not> le_number (Finite 1) (quantity ?fd')"
    using le0 by (cases "quantity ?fd'") simp_all
  have sale: "\<exists>s. handleSubmit h clk ?fd'
                     = Inr [PreventDefault, OnSaleCreated s, OnOpenChange False,
                            SetFormData initialFormData]
                   \<and> saleData.quantity s = quantity ?fd'
                   \<and> le_number (saleData.quantity s) (Finite 0)
                   \<and> \<not> le_number (Finite 1) (saleData.quantity s)"
    if "unitPrice fd \<noteq> []"
  proof -
    from that have "unitPrice ?fd' \<noteq> []"
      by (simp add: fd')
    from handleSubmit_success [OF sel this valid, of clk] le0 lt1 show ?thesis
      by (simp add: quantity_saleData')
  qed
  from q le eq valid sale show ?thesis
    by blast
qed

theorem nonpositive_stock_sale_witness:
  "selectedProduct exampleHooks (exampleForm ''C'' 1 ''7.50'')
     = Some \<lparr>id' = js ''C'', name = js ''Gizmo'', sellPrice = js ''$7.50''\<rparr>
   \<and> availableStock exampleHooks (exampleForm ''C'' 1 ''7.50'') = Finite (- 1)
   \<and> le_number (availableStock exampleHooks (exampleForm ''C'' 1 ''7.50'')) (Finite 0)
   \<and> or_number (parseInt (js ''3'')) (Finite 1) = Finite 3
   \<and> unitPrice (exampleForm ''C'' 1 ''7.50'') \<noteq> []
   \<and> stateAfter (exampleForm ''C'' 1 ''7.50'')
         (handleQuantityChange exampleHooks (exampleForm ''C'' 1 ''7.50'') (js ''3''))
       = exampleForm ''C'' (- 1) ''7.50''
   \<and> isQuantityValid exampleHooks (exampleForm ''C'' (- 1) ''7.50'')
   \<and> (\<exists>s. handleSubmit exampleHooks exampleClock (exampleForm ''C'' (- 1) ''7.50'')
              = Inr [PreventDefault, OnSaleCreated s, OnOpenChange False,
                     SetFormData initialFormData]
            \<and> saleData.quantity s = Finite (- 1))"
proof -
  let ?F = "exampleForm ''C'' 1 ''7.50''"
  have stock: "le_number (availableStock exampleHooks ?F) (Finite 0)"
    by (simp add: available_C)
  have price: "unitPrice ?F \<noteq> []"
    by (simp add: unitPrice_exampleForm js_eval)
  have typed: "stateAfter ?F (handleQuantityChange exampleHooks ?F (js ''3''))
       = exampleForm ''C'' (- 1) ''7.50''"
    by (simp add: stateAfter_handleQuantityChange parseInt_3 or_number_def min_number_def
        available_C exampleForm_quantity_update)
  show ?thesis
    using nonpositive_stock_sale [where h = exampleHooks and fd = "exampleForm ''C'' 1 ''7.50''"
        and q = "js ''3''" and clk = exampleClock, OF selected_C stock]
      price
    by (auto simp add: typed selected_C available_C parseInt_3 or_number_def
        quantity_exampleForm)
qed

section \<open>The prices of a sale\<close>

text \<open>
  Claim C6, as stated, fails: the two strings are not always fixed-2-decimal strings. A
  product whose sell price is written with a euro sign is pre-filled with that sign
  (only the dollar and the taka sign are stripped); \<^verbatim>\<open>parseFloat\<close> of it is
  \<^verbatim>\<open>NaN\<close>, the submit succeeds, and both strings of the emitted record are
  \<^verbatim>\<open>NaN\<close>.
\<close>

theorem sale_prices_NaN:
  "stateAfter initialFormData (handleProductChange euroHooks initialFormData (js ''E'')) = euroForm
   \<and> handleSubmit euroHooks exampleClock euroForm
       = Inr [PreventDefault,
              OnSaleCreated (saleData' exampleClock euroForm
                \<lparr>id' = js ''E'', name = js ''Import'', sellPrice = 0x20AC # js ''7.50''\<rparr>),
              OnOpenChange False, SetFormData initialFormData]
   \<and> saleData.unitPrice (saleData' exampleClock euroForm
         \<lparr>id' = js ''E'', name = js ''Import'', sellPrice = 0x20AC # js ''7.50''\<rparr>)
       = js ''NaN''
   \<and> saleData.totalAmount (saleData' exampleClock euroForm
         \<lparr>id' = js ''E'', name = js ''Import'', sellPrice = 0x20AC # js ''7.50''\<rparr>)
       = js ''NaN''
   \<and> \<not> is_fixed2 (js ''NaN'')"
proof -
  let ?P = "\<lparr>id' = js ''E'', name = js ''Import'', sellPrice = 0x20AC # js ''7.50''\<rparr>"
  have sel: "selectedProduct euroHooks euroForm = Some ?P"
    by (simp add: selectedProduct_def euroHooks_def euroForm_def js_eval)
  have price: "unitPrice euroForm \<noteq> []"
    by (simp add: euroForm_def)
  have "getCalculatedStock euroHooks (js ''E'') = Finite 5"
    by (simp add: getCalculatedStock_def euroHooks_def js_eval minus_number_def double_eval)
  then have valid: "isQuantityValid euroHooks euroForm"
    by (simp add: isQuantityValid_def availableStock_def sel)
      (simp add: euroForm_def initialFormData_def)
  have nan: "parseFloat (unitPrice euroForm) = NaN"
    by (simp add: euroForm_def parseFloat_eval)
  have typed: "stateAfter initialFormData (handleProductChange euroHooks initialFormData (js ''E''))
               = euroForm"
    by (simp add: handleProductChange_def euroHooks_def euroForm_def initialFormData_def js_eval)
  have u: "saleData.unitPrice (saleData' exampleClock euroForm ?P) = js ''NaN''"
    by (simp add: saleData'_def nan toFixed_def)
  have t: "saleData.totalAmount (saleData' exampleClock euroForm ?P) = js ''NaN''"
    using price by (simp add: saleData'_def totalAmount'_def unitPrice'_def nan toFixed_def)
  have "\<not> is_fixed2 (js ''NaN'')"
    by (simp add: is_fixed2_def js_eval)
  with typed u t handleSubmit_success [OF sel price valid, of exampleClock] show ?thesis
    by simp
qed

text \<open>
  Claim C6, amended. On a successful submit the unit price of the emitted record is
  \<^verbatim>\<open>toFixed(2)\<close> of \<^verbatim>\<open>parseFloat\<close> of the unit price of the form, and its total
  amount is \<^verbatim>\<open>toFixed(2)\<close> of that number times the quantity. Whenever such a number
  is finite and below \<open>10 ^ 21\<close> in magnitude, the string is its fixed-2-decimal string:
  the numeral with two decimals nearest to it. In particular a unit price of
  \<^verbatim>\<open>19.999\<close> with quantity 3 gives \<^verbatim>\<open>20.00\<close> and \<^verbatim>\<open>60.00\<close>.
\<close>

theorem sale_prices_fixed:
  assumes "selectedProduct h fd = Some p" and "unitPrice fd \<noteq> []" and "isQuantityValid h fd"
  shows "\<exists>s. handleSubmit h clk fd
               = Inr [PreventDefault, OnSaleCreated s, OnOpenChange False,
                      SetFormData initialFormData]
             \<and> saleData.unitPrice s = toFixed (parseFloat (unitPrice fd)) 2
             \<and> saleData.totalAmount s
                 = toFixed (times_number (parseFloat (unitPrice fd)) (quantity fd)) 2
             \<and> (\<forall>u. parseFloat (unitPrice fd) = Finite u \<and> \<bar>u\<bar> < 10 ^ 21 \<longrightarrow>
                  saleData.unitPrice s = fixed2 u \<and> is_fixed2 (saleData.unitPrice s))
             \<and> (\<forall>t. times_number (parseFloat (unitPrice fd)) (quantity fd) = Finite t
                      \<and> \<bar>t\<bar> < 10 ^ 21 \<longrightarrow>
                  saleData.totalAmount s = fixed2 t \<and> is_fixed2 (saleData.totalAmount s))
             \<and> (unitPrice fd = js ''19.999'' \<and> quantity fd = Finite 3 \<longrightarrow>
                  saleData.unitPrice s = js ''20.00'' \<and> saleData.totalAmount s = js ''60.00'')"
proof -
  let ?s = "saleData' clk fd p"
  have u: "saleData.unitPrice ?s = toFixed (parseFloat (unitPrice fd)) 2"
    by (simp add: saleData'_def)
  have t: "saleData.totalAmount ?s
            = toFixed (times_number (parseFloat (unitPrice fd)) (quantity fd)) 2"
    using assms(2) by (simp add: saleData'_def totalAmount'_def unitPrice'_def)
  have fu: "saleData.unitPrice ?s = fixed2 x \<and> is_fixed2 (saleData.unitPrice ?s)"
    if "parseFloat (unitPrice fd) = Finite x" and "\<bar>x\<bar> < 10 ^ 21" for x
    using that by (simp add: u toFixed_fixed2 is_fixed2_fixed2)
  have ft: "saleData.totalAmount ?s = fixed2 x \<and> is_fixed2 (saleData.totalAmount ?s)"
    if "times_number (parseFloat (unitPrice fd)) (quantity fd) = Finite x" and "\<bar>x\<bar> < 10 ^ 21"
    for x
    using that by (simp add: t toFixed_fixed2 is_fixed2_fixed2)
  have ex: "saleData.unitPrice ?s = js ''20.00'' \<and> saleData.totalAmount ?s = js ''60.00''"
    if "unitPrice fd = js ''19.999''" and "quantity fd = Finite 3"
    unfolding u t that
    by (simp only: parseFloat_19999 times_19999_3 toFixed_19999 toFixed_59997)
  from u t fu ft ex handleSubmit_success [OF assms, of clk] show ?thesis
    by blast
qed

theorem sale_prices_fixed_witness:
  "selectedProduct exampleHooks (exampleForm ''A'' 3 ''19.999'')
     = Some \<lparr>id' = js ''A'', name = js ''Widget'', sellPrice = js ''$19.999''\<rparr>
   \<and> unitPrice (exampleForm ''A'' 3 ''19.999'') = js ''19.999''
   \<and> unitPrice (exampleForm ''A'' 3 ''19.999'') \<noteq> []
   \<and> quantity (exampleForm ''A'' 3 ''19.999'') = Finite 3
   \<and> isQuantityValid exampleHooks (exampleForm ''A'' 3 ''19.999'')
   \<and> parseFloat (js ''19.999'') = Finite (5629218059236409 / 281474976710656)
   \<and> \<bar>5629218059236409 / 281474976710656 :: rat\<bar> < 10 ^ 21
   \<and> times_number (parseFloat (js ''19.999'')) (Finite 3)
       = Finite (4221913544427307 / 70368744177664)
   \<and> \<bar>4221913544427307 / 70368744177664 :: rat\<bar> < 10 ^ 21
   \<and> (\<exists>s. handleSubmit exampleHooks exampleClock (exampleForm ''A'' 3 ''19.999'')
               = Inr [PreventDefault, OnSaleCreated s, OnOpenChange False,
                      SetFormData initialFormData]
          \<and> saleData.unitPrice s = js ''20.00'' \<and> is_fixed2 (saleData.unitPrice s)
          \<and> saleData.unitPrice s = fixed2 (5629218059236409 / 281474976710656)
          \<and> saleData.totalAmount s = js ''60.00'' \<and> is_fixed2 (saleData.totalAmount s)
          \<and> saleData.totalAmount s = fixed2 (4221913544427307 / 70368744177664))"
proof -
  let ?F = "exampleForm ''A'' 3 ''19.999''"
  have price: "unitPrice ?F \<noteq> []"
    by (simp add: unitPrice_exampleForm js_19999_nonempty)
  have pf: "parseFloat (unitPrice ?F) = Finite (5629218059236409 / 281474976710656)"
    by (simp add: unitPrice_exampleForm parseFloat_19999)
  have tm: "times_number (parseFloat (unitPrice ?F)) (quantity ?F)
            = Finite (4221913544427307 / 70368744177664)"
    by (simp only: pf quantity_exampleForm times_19999_3)
  have b1: "\<bar>5629218059236409 / 281474976710656 :: rat\<bar> < 10 ^ 21"
    by simp
  have b2: "\<bar>4221913544427307 / 70368744177664 :: rat\<bar> < 10 ^ 21"
    by simp
  from sale_prices_fixed [OF selected_A price valid_A_3, of exampleClock]
  obtain s where s: "handleSubmit exampleHooks exampleClock ?F
               = Inr [PreventDefault, OnSaleCreated s, OnOpenChange False,
                      SetFormData initialFormData]"
    and u: "\<forall>u. parseFloat (unitPrice ?F) = Finite u \<and> \<bar>u\<bar> < 10 ^ 21 \<longrightarrow>
                  saleData.unitPrice s = fixed2 u \<and> is_fixed2 (saleData.unitPrice s)"
    and t: "\<forall>t. times_number (parseFloat (unitPrice ?F)) (quantity ?F) = Finite t
                      \<and> \<bar>t\<bar> < 10 ^ 21 \<longrightarrow>
                  saleData.totalAmount s = fixed2 t \<and> is_fixed2 (saleData.totalAmount s)"
    and e: "unitPrice ?F = js ''19.999'' \<and> quantity ?F = Finite 3 \<longrightarrow>
                  saleData.unitPrice s = js ''20.00'' \<and> saleData.totalAmount s = js ''60.00''"
    by blast
  from u pf b1 have 1: "saleData.unitPrice s = fixed2 (5629218059236409 / 281474976710656)"
    "is_fixed2 (saleData.unitPrice s)"
    by blast+
  from t tm b2 have 2: "saleData.totalAmount s = fixed2 (4221913544427307 / 70368744177664)"
    "is_fixed2 (saleData.totalAmount s)"
    by blast+
  from e have 3: "saleData.unitPrice s = js ''20.00''" "saleData.totalAmount s = js ''60.00''"
    by (simp_all add: unitPrice_exampleForm quantity_exampleForm)
  have "\<exists>s. handleSubmit exampleHooks exampleClock ?F
               = Inr [PreventDefault, OnSaleCreated s, OnOpenChange False,
                      SetFormData initialFormData]
          \<and> saleData.unitPrice s = js ''20.00'' \<and> is_fixed2 (saleData.unitPrice s)
          \<and> saleData.unitPrice s = fixed2 (5629218059236409 / 281474976710656)
          \<and> saleData.totalAmount s = js ''60.00'' \<and> is_fixed2 (saleData.totalAmount s)
          \<and> saleData.totalAmount s = fixed2 (4221913544427307 / 70368744177664)"
    using s 1 2 3 by (intro exI [of _ s]) (simp only: simp_thms)
  moreover have "parseFloat (js ''19.999'') = Finite (5629218059236409 / 281474976710656)"
    by (rule parseFloat_19999)
  moreover have "times_number (parseFloat (js ''19.999'')) (Finite 3)
       = Finite (4221913544427307 / 70368744177664)"
    by (simp only: parseFloat_19999 times_19999_3)
  ultimately show ?thesis
    using selected_A [of 3 "''19.999''"] valid_A_3 [of "''19.999''"] price b1 b2
    by (simp only: unitPrice_exampleForm quantity_exampleForm simp_thms)
qed

section \<open>The reset after a submit\<close>

text \<open>
  Claim C7. On every successful submit (a product is selected, the unit price is not
  empty and the quantity is valid) the handler first hands the record to
  \<^verbatim>\<open>onSaleCreated\<close>, then closes the dialog with \<^verbatim>\<open>onOpenChange(false)\<close>, then sets
  the form data to its defaults: no product, quantity 1, empty unit price, status
  Completed, empty customer name and notes.
\<close>

theorem handleSubmit_resets:
  assumes "selectedProduct h fd = Some p" and "unitPrice fd \<noteq> []" and "isQuantityValid h fd"
  shows "\<exists>s. handleSubmit h clk fd
               = Inr [PreventDefault, OnSaleCreated s, OnOpenChange False, SetFormData initialFormData]
             \<and> stateAfter fd [PreventDefault, OnSaleCreated s, OnOpenChange False,
                               SetFormData initialFormData]
                 = \<lparr>productId = [], quantity = Finite 1, unitPrice = [], customerName = [],
                    status = Completed, notes' = []\<rparr>"
  using handleSubmit_success [OF assms, of clk]
  by (simp add: initialFormData_def)

theorem handleSubmit_resets_witness:
  "selectedProduct exampleHooks (exampleForm ''A'' 3 ''19.999'')
     = Some \<lparr>id' = js ''A'', name = js ''Widget'', sellPrice = js ''$19.999''\<rparr>
   \<and> unitPrice (exampleForm ''A'' 3 ''19.999'') \<noteq> []
   \<and> isQuantityValid exampleHooks (exampleForm ''A'' 3 ''19.999'')
   \<and> (\<exists>s. handleSubmit exampleHooks exampleClock (exampleForm ''A'' 3 ''19.999'')
               = Inr [PreventDefault, OnSaleCreated s, OnOpenChange False, SetFormData initialFormData]
          \<and> stateAfter (exampleForm ''A'' 3 ''19.999'')
                [PreventDefault, OnSaleCreated s, OnOpenChange False, SetFormData initialFormData]
              = \<lparr>productId = [], quantity = Finite 1, unitPrice = [], customerName = [],
                 status = Completed, notes' = []\<rparr>)"
proof -
  have 2: "unitPrice (exampleForm ''A'' 3 ''19.999'') \<noteq> []"
    by (simp add: unitPrice_exampleForm js_19999_nonempty)
  show ?thesis
    using handleSubmit_resets [OF selected_A 2 valid_A_3, of exampleClock] selected_A 2 valid_A_3
    by blast
qed

section \<open>Cancelling\<close>



section \<open>Selecting a product\<close>

text \<open>
  Claim C9. For every product identifier that occurs in the product list,
  \<^verbatim>\<open>handleProductChange\<close> stores the identifier, sets the quantity to 1 and sets
  the unit price to the sell price of that product (the first one with the identifier)
  without its dollar and taka signs; customer name, status and notes stay as they are.
\<close>

theorem handleProductChange_prefills:
  assumes "pid \<in> id' ` set (products h)"
  shows "\<exists>p. find (\<lambda>p. id' p = pid) (products h) = Some p
             \<and> p \<in> set (products h) \<and> id' p = pid
             \<and> stateAfter fd (handleProductChange h fd pid)
                 = fd\<lparr>productId := pid, quantity := Finite 1,
                      unitPrice := filter (\<lambda>c. c \<noteq> 0x24 \<and> c \<noteq> 0x09F3) (sellPrice p)\<rparr>
             \<and> customerName (stateAfter fd (handleProductChange h fd pid)) = customerName fd
             \<and> status (stateAfter fd (handleProductChange h fd pid)) = status fd
             \<and> notes' (stateAfter fd (handleProductChange h fd pid)) = notes' fd"
proof -
  from assms obtain y where y: "y \<in> set (products h)" "id' y = pid"
    by auto
  then obtain p where p: "find (\<lambda>p. id' p = pid) (products h) = Some p"
    using find_present [of y "products h" "\<lambda>p. id' p = pid"] by auto
  then have "p \<in> set (products h) \<and> id' p = pid"
    by (rule find_Some_first)
  with p show ?thesis
    by (simp add: handleProductChange_def replace_currency_filter)
qed

theorem handleProductChange_prefills_witness:
  "js ''B'' \<in> id' ` set (products exampleHooks)
   \<and> stateAfter (exampleForm ''A'' 7 ''19.999'')
         (handleProductChange exampleHooks (exampleForm ''A'' 7 ''19.999'') (js ''B''))
       = exampleForm ''B'' 1 ''500''"
proof -
  have B: "js ''B'' \<in> id' ` set (products exampleHooks)"
    by (simp add: exampleHooks_def js_eval)
  have "find (\<lambda>p. id' p = js ''B'') (products exampleHooks)
        = Some \<lparr>id' = js ''B'', name = js ''Gadget'', sellPrice = 0x09F3 # js ''500''\<rparr>"
    by (simp add: exampleHooks_def js_eval)
  with handleProductChange_prefills [OF B, of "exampleForm ''A'' 7 ''19.999''"] B
  show ?thesis
    by (auto simp add: exampleForm_def js_eval)
qed

section \<open>The date of a sale\<close>

text \<open>
  Claim C10, as stated, fails for a clock beyond the year 9999: \<^verbatim>\<open>toISOString\<close>
  then writes the year with a sign and six digits, so the date of the emitted record is
  \<^verbatim>\<open>+010000-01-01\<close>, which is not of the form \<^verbatim>\<open>YYYY-MM-DD\<close>.
\<close>

theorem sale_date_year10000:
  "handleSubmit exampleHooks year10000Clock (exampleForm ''A'' 3 ''19.999'')
     = Inr [PreventDefault,
            OnSaleCreated (saleData' year10000Clock (exampleForm ''A'' 3 ''19.999'')
              \<lparr>id' = js ''A'', name = js ''Widget'', sellPrice = js ''$19.999''\<rparr>),
            OnOpenChange False, SetFormData initialFormData]
   \<and> saleData.date (saleData' year10000Clock (exampleForm ''A'' 3 ''19.999'')
         \<lparr>id' = js ''A'', name = js ''Widget'', sellPrice = js ''$19.999''\<rparr>)
       = js ''+010000-01-01''
   \<and> \<not> is_YYYY_MM_DD (saleData.date (saleData' year10000Clock (exampleForm ''A'' 3 ''19.999'')
         \<lparr>id' = js ''A'', name = js ''Widget'', sellPrice = js ''$19.999''\<rparr>))
   \<and> saleData.date (saleData' year10000Clock (exampleForm ''A'' 3 ''19.999'')
         \<lparr>id' = js ''A'', name = js ''Widget'', sellPrice = js ''$19.999''\<rparr>)
       \<noteq> utcCalendarDate (now year10000Clock)"
proof -
  have "unitPrice (exampleForm ''A'' 3 ''19.999'') \<noteq> []"
    by (simp add: unitPrice_exampleForm js_19999_nonempty)
  from handleSubmit_success [OF selected_A this valid_A_3, of year10000Clock]
  show ?thesis
    by (simp add: date_saleData' date_year10000 utcCalendarDate_year10000)
      (simp add: is_YYYY_MM_DD_def js_eval)
qed

text \<open>
  Claim C10, amended. When the UTC year of the time of submission is between 0 and
  9999, the date of the emitted record is the UTC calendar date of that time in the form
  \<^verbatim>\<open>YYYY-MM-DD\<close>, whatever the offset of the local time zone.
\<close>

theorem sale_date_utc:
  assumes "selectedProduct h fd = Some p" and "unitPrice fd \<noteq> []" and "isQuantityValid h fd"
    and "0 \<le> YearFromTime (now clk)" and "YearFromTime (now clk) \<le> 9999"
  shows "\<exists>s. handleSubmit h clk fd
               = Inr [PreventDefault, OnSaleCreated s, OnOpenChange False,
                      SetFormData initialFormData]
             \<and> saleData.date s = utcCalendarDate (now clk)
             \<and> is_YYYY_MM_DD (saleData.date s)
             \<and> (\<forall>tz. handleSubmit h (clk\<lparr>timezoneOffset := tz\<rparr>) fd = handleSubmit h clk fd)"
proof -
  have "saleData.date (saleData' clk fd p) = utcCalendarDate (now clk)"
    using assms(4,5) by (simp add: date_saleData' split_first_date)
  moreover have "is_YYYY_MM_DD (utcCalendarDate (now clk))"
    using assms(4,5) by (rule utcCalendarDate_form)
  ultimately show ?thesis
    using handleSubmit_success [OF assms(1-3), of clk]
    by (simp add: handleSubmit_timezoneOffset)
qed

theorem sale_date_utc_witness:
  "selectedProduct exampleHooks (exampleForm ''A'' 3 ''19.999'')
     = Some \<lparr>id' = js ''A'', name = js ''Widget'', sellPrice = js ''$19.999''\<rparr>
   \<and> unitPrice (exampleForm ''A'' 3 ''19.999'') \<noteq> []
   \<and> isQuantityValid exampleHooks (exampleForm ''A'' 3 ''19.999'')
   \<and> YearFromTime (now exampleClock) = 2024
   \<and> (\<exists>s. handleSubmit exampleHooks exampleClock (exampleForm ''A'' 3 ''19.999'')
               = Inr [PreventDefault, OnSaleCreated s, OnOpenChange False,
                      SetFormData initialFormData]
          \<and> saleData.date s = js ''2024-11-03''
          \<and> handleSubmit exampleHooks (exampleClock\<lparr>timezoneOffset := 600\<rparr>)
                (exampleForm ''A'' 3 ''19.999'')
              = handleSubmit exampleHooks exampleClock (exampleForm ''A'' 3 ''19.999''))"
proof -
  have price: "unitPrice (exampleForm ''A'' 3 ''19.999'') \<noteq> []"
    by (simp add: unitPrice_exampleForm js_19999_nonempty)
  have y: "0 \<le> YearFromTime (now exampleClock)" "YearFromTime (now exampleClock) \<le> 9999"
    by (simp_all add: year_exampleClock)
  from sale_date_utc [OF selected_A price valid_A_3 y] price
  show ?thesis
    by (auto simp add: selected_A valid_A_3 year_exampleClock utcCalendarDate_exampleClock)
qed

end
